theory Spec2Isabelle
  imports Main "HOL-Library.Word"
begin

section \<open>JavaScript strings\<close>

text \<open>
  A JavaScript string is a sequence of UTF-16 code units and \<open>length\<close> counts code units.
  String literals of the source that are not ASCII are written as their code units.
\<close>

type_synonym char16 = "16 word"
type_synonym jsstring = "char16 list"

definition str :: "string \<Rightarrow> jsstring" where
  "str s = map of_char s"

text \<open>
  The characters removed by \<open>String.prototype.trim\<close> and matched by the regular
  expression class \<open>\s\<close>: WhiteSpace and LineTerminator of ECMAScript.
\<close>

definition isWhiteSpace :: "char16 \<Rightarrow> bool" where
  "isWhiteSpace c \<longleftrightarrow>
     (0x09 \<le> c \<and> c \<le> 0x0D) \<or> c = 0x20 \<or> c = 0xA0 \<or> c = 0x1680 \<or>
     (0x2000 \<le> c \<and> c \<le> 0x200A) \<or> c = 0x2028 \<or> c = 0x2029 \<or> c = 0x202F \<or>
     c = 0x205F \<or> c = 0x3000 \<or> c = 0xFEFF"

definition isNewline :: "char16 \<Rightarrow> bool" where
  "isNewline c \<longleftrightarrow> c = 0x0A"

definition trim :: "jsstring \<Rightarrow> jsstring" where
  "trim s = rev (dropWhile isWhiteSpace (rev (dropWhile isWhiteSpace s)))"

text \<open>
  \<open>s.replace(/C+/g, r)\<close> for a character class \<open>C\<close>: scanning from the left, every
  maximal run of characters of the class is replaced by \<open>r\<close>.
\<close>

function replaceRuns :: "('a \<Rightarrow> bool) \<Rightarrow> 'a list \<Rightarrow> 'a list \<Rightarrow> 'a list" where
  "replaceRuns P r [] = []"
| "replaceRuns P r (c # cs) =
     (if P c then r @ replaceRuns P r (dropWhile P cs) else c # replaceRuns P r cs)"
  by pat_completeness auto
termination
  by (relation "measure (\<lambda>(P, r, s). length s)")
     (auto simp: less_Suc_eq_le length_dropWhile_le)

section \<open>JavaScript dates\<close>

text \<open>
  A \<open>Date\<close> that is not \<open>Invalid Date\<close> is modelled by its local time value: the
  milliseconds since 1970-01-01 00:00:00.000 on the local calendar. The calendar fields are
  those of ECMAScript (\<open>Day\<close>, \<open>TimeWithinDay\<close>, \<open>DayFromYear\<close>, \<open>YearFromTime\<close>,
  \<open>MonthFromTime\<close>, \<open>DateFromTime\<close>, \<open>WeekDay\<close>, \<open>MakeDay\<close>, \<open>MakeTime\<close>,
  \<open>MakeDate\<close>) on the proleptic Gregorian calendar. The offset between local time and
  UTC is taken to be constant, so that two instants compare as their local time values do.
\<close>

type_synonym instant = int

definition msPerDay :: int where
  "msPerDay = 86400000"

definition Day :: "instant \<Rightarrow> int" where
  "Day t = t div msPerDay"

definition TimeWithinDay :: "instant \<Rightarrow> int" where
  "TimeWithinDay t = t mod msPerDay"

definition DayFromYear :: "int \<Rightarrow> int" where
  "DayFromYear y =
     365 * (y - 1970) + (y - 1969) div 4 - (y - 1901) div 100 + (y - 1601) div 400"

definition InLeapYear :: "int \<Rightarrow> bool" where
  "InLeapYear y \<longleftrightarrow> y mod 4 = 0 \<and> (y mod 100 \<noteq> 0 \<or> y mod 400 = 0)"

text \<open>
  The year of a day number: the largest \<open>y\<close> with \<open>DayFromYear y \<le> n\<close>. It is computed
  from the estimate given by the mean length of a year, which is off by at most one
  (lemma \<open>YearFromDay_bounds\<close>).
\<close>

definition YearFromDay :: "int \<Rightarrow> int" where
  "YearFromDay n =
     (let y = 1970 + (400 * n) div 146097
      in if DayFromYear (y + 1) \<le> n then y + 1
         else if DayFromYear y \<le> n then y
         else y - 1)"

text \<open>The day within the year on which month \<open>m\<close> (0 to 11) starts.\<close>

definition monthStart :: "bool \<Rightarrow> int \<Rightarrow> int" where
  "monthStart leap m =
     (let l = (if leap then 1 else 0)
      in if m = 0 then 0 else if m = 1 then 31 else if m = 2 then 59 + l
         else if m = 3 then 90 + l else if m = 4 then 120 + l else if m = 5 then 151 + l
         else if m = 6 then 181 + l else if m = 7 then 212 + l else if m = 8 then 243 + l
         else if m = 9 then 273 + l else if m = 10 then 304 + l else 334 + l)"

definition MonthFromDay :: "int \<Rightarrow> int" where
  "MonthFromDay n =
     (let y = YearFromDay n; d = n - DayFromYear y; leap = InLeapYear y
      in if d < monthStart leap 1 then 0 else if d < monthStart leap 2 then 1
         else if d < monthStart leap 3 then 2 else if d < monthStart leap 4 then 3
         else if d < monthStart leap 5 then 4 else if d < monthStart leap 6 then 5
         else if d < monthStart leap 7 then 6 else if d < monthStart leap 8 then 7
         else if d < monthStart leap 9 then 8 else if d < monthStart leap 10 then 9
         else if d < monthStart leap 11 then 10 else 11)"

definition DateFromDay :: "int \<Rightarrow> int" where
  "DateFromDay n =
     (let y = YearFromDay n
      in n - DayFromYear y - monthStart (InLeapYear y) (MonthFromDay n) + 1)"

text \<open>
  \<open>MakeDay\<close> accepts any month and date: months beyond 0..11 carry into the year and the
  date counts on from the first of the month, which is how \<open>setDate\<close> moves across the
  end of a month.
\<close>

definition MakeDay :: "int \<Rightarrow> int \<Rightarrow> int \<Rightarrow> int" where
  "MakeDay year month date =
     (let ym = year + month div 12; mn = month mod 12
      in DayFromYear ym + monthStart (InLeapYear ym) mn + date - 1)"

definition MakeTime :: "int \<Rightarrow> int \<Rightarrow> int \<Rightarrow> int \<Rightarrow> int" where
  "MakeTime hour minute sec ms = ((hour * 60 + minute) * 60 + sec) * 1000 + ms"

definition MakeDate :: "int \<Rightarrow> int \<Rightarrow> instant" where
  "MakeDate day time = day * msPerDay + time"

definition getFullYear :: "instant \<Rightarrow> int" where
  "getFullYear t = YearFromDay (Day t)"

definition getMonth :: "instant \<Rightarrow> int" where
  "getMonth t = MonthFromDay (Day t)"

definition getDate :: "instant \<Rightarrow> int" where
  "getDate t = DateFromDay (Day t)"

definition getDay :: "instant \<Rightarrow> int" where
  "getDay t = (Day t + 4) mod 7"

definition getHours :: "instant \<Rightarrow> int" where
  "getHours t = TimeWithinDay t div 3600000"

text \<open>
  \<open>new Date(year, month, date)\<close>: local midnight of the given day. The constructor reads
  a year from 0 to 99 as 1900 + year.
\<close>

definition newDate :: "int \<Rightarrow> int \<Rightarrow> int \<Rightarrow> instant" where
  "newDate year month date =
     MakeDate (MakeDay (if 0 \<le> year \<and> year \<le> 99 then 1900 + year else year) month date) 0"

definition setDate :: "instant \<Rightarrow> int \<Rightarrow> instant" where
  "setDate t date = MakeDate (MakeDay (getFullYear t) (getMonth t) date) (TimeWithinDay t)"

definition setHours :: "instant \<Rightarrow> int \<Rightarrow> int \<Rightarrow> int \<Rightarrow> int \<Rightarrow> instant" where
  "setHours t hour minute sec ms = MakeDate (Day t) (MakeTime hour minute sec ms)"

section \<open>Numbers as strings\<close>

fun digits :: "nat \<Rightarrow> jsstring" where
  "digits n = (if n < 10 then [0x30 + of_nat n] else digits (n div 10) @ [0x30 + of_nat (n mod 10)])"

text \<open>\<open>String(i)\<close> for an integer \<open>i\<close>.\<close>

definition String :: "int \<Rightarrow> jsstring" where
  "String i = (if i < 0 then 0x2D # digits (nat (- i)) else digits (nat i))"

definition padStart :: "nat \<Rightarrow> char16 \<Rightarrow> jsstring \<Rightarrow> jsstring" where
  "padStart n c s = replicate (n - length s) c @ s"

section \<open>parse-todo: constants\<close>

definition INPUT_MIN_LENGTH :: nat where "INPUT_MIN_LENGTH = 2"
definition INPUT_MAX_LENGTH :: nat where "INPUT_MAX_LENGTH = 500"
definition TITLE_MIN_LENGTH :: nat where "TITLE_MIN_LENGTH = 2"
definition TITLE_MAX_LENGTH :: nat where "TITLE_MAX_LENGTH = 100"
definition DESCRIPTION_MAX_LENGTH :: nat where "DESCRIPTION_MAX_LENGTH = 500"

section \<open>parse-todo: preprocessInput and validateInput\<close>

definition preprocessInput :: "jsstring \<Rightarrow> jsstring" where
  "preprocessInput input =
     (let processed = trim input;
          processed = replaceRuns isWhiteSpace [0x20] processed;
          processed = replaceRuns isNewline [0x0A] processed
      in processed)"

text \<open>
  The source reports a failed validation by its message; the four messages are the four
  reasons below, and the message for a too long input carries the length of the input.
\<close>

datatype validation_error = EmptyInput | TooShort | TooLong nat | NoMeaningfulText

datatype validation = Valid | Invalid validation_error

text \<open>
  The five character-class tests of \<open>validateInput\<close>. All ranges lie in the Basic
  Multilingual Plane below the surrogates, so a code point of the string is in a range
  exactly when one of its code units is.
\<close>

definition hasKorean :: "jsstring \<Rightarrow> bool" where
  "hasKorean s = list_ex (\<lambda>c. (0x3131 \<le> c \<and> c \<le> 0x318E) \<or> (0xAC00 \<le> c \<and> c \<le> 0xD7A3)) s"

definition hasAlphabetic :: "jsstring \<Rightarrow> bool" where
  "hasAlphabetic s = list_ex (\<lambda>c. (0x61 \<le> c \<and> c \<le> 0x7A) \<or> (0x41 \<le> c \<and> c \<le> 0x5A)) s"

definition hasNumeric :: "jsstring \<Rightarrow> bool" where
  "hasNumeric s = list_ex (\<lambda>c. 0x30 \<le> c \<and> c \<le> 0x39) s"

definition hasChinese :: "jsstring \<Rightarrow> bool" where
  "hasChinese s = list_ex (\<lambda>c. 0x4E00 \<le> c \<and> c \<le> 0x9FFF) s"

definition hasJapanese :: "jsstring \<Rightarrow> bool" where
  "hasJapanese s = list_ex (\<lambda>c. (0x3040 \<le> c \<and> c \<le> 0x309F) \<or> (0x30A0 \<le> c \<and> c \<le> 0x30FF)) s"

definition hasMeaningfulText :: "jsstring \<Rightarrow> bool" where
  "hasMeaningfulText s \<longleftrightarrow>
     hasKorean s \<or> hasAlphabetic s \<or> hasNumeric s \<or> hasChinese s \<or> hasJapanese s"

definition validateInput :: "jsstring \<Rightarrow> validation" where
  "validateInput input =
     (if input = [] then Invalid EmptyInput
      else if length input < INPUT_MIN_LENGTH then Invalid TooShort
      else if length input > INPUT_MAX_LENGTH then Invalid (TooLong (length input))
      else if \<not> hasMeaningfulText input then Invalid NoMeaningfulText
      else Valid)"

section \<open>parse-todo: postprocessTitle and postprocessDescription\<close>

text \<open>The placeholder title of the source, three Hangul syllables separated by spaces.\<close>

definition placeholderTitle :: jsstring where
  "placeholderTitle = [0xC0C8, 0x20, 0xD560, 0x20, 0xC77C]"

definition ellipsis :: jsstring where
  "ellipsis = str ''...''"

definition postprocessTitle :: "jsstring \<Rightarrow> jsstring" where
  "postprocessTitle title =
     (let processed = trim title;
          processed = (if length processed < TITLE_MIN_LENGTH then placeholderTitle
                       else processed);
          processed = (if length processed > TITLE_MAX_LENGTH
                       then take (TITLE_MAX_LENGTH - 3) processed @ ellipsis
                       else processed)
      in processed)"

text \<open>The description is optional: \<open>None\<close> is \<open>undefined\<close>.\<close>

definition postprocessDescription :: "jsstring option \<Rightarrow> jsstring" where
  "postprocessDescription description =
     (case description of
        None \<Rightarrow> []
      | Some d \<Rightarrow>
          if d = [] then []
          else let processed = trim d
               in if length processed > DESCRIPTION_MAX_LENGTH
                  then take (DESCRIPTION_MAX_LENGTH - 3) processed @ ellipsis
                  else processed)"

section \<open>parse-todo: getDateHelpers\<close>

definition getCurrentWeekDay :: "instant \<Rightarrow> int \<Rightarrow> instant" where
  "getCurrentWeekDay base targetDay =
     (let currentDay = getDay base;
          diff = targetDay - currentDay
      in setDate base (getDate base + (if diff \<ge> 0 then diff else 7 + diff)))"

definition getNextWeekDay :: "instant \<Rightarrow> int \<Rightarrow> instant" where
  "getNextWeekDay base targetDay =
     (let result = getCurrentWeekDay base targetDay
      in setDate result (getDate result + 7))"

definition formatDate :: "instant \<Rightarrow> jsstring" where
  "formatDate date =
     (let year = getFullYear date;
          month = padStart 2 0x30 (String (getMonth date + 1));
          day = padStart 2 0x30 (String (getDate date))
      in String year @ str ''-'' @ month @ str ''-'' @ day)"

text \<open>The Korean names of the weekdays, Sunday first, as code units.\<close>

definition weekdayNames :: "jsstring list" where
  "weekdayNames =
     [[0xC77C, 0xC694, 0xC77C], [0xC6D4, 0xC694, 0xC77C], [0xD654, 0xC694, 0xC77C],
      [0xC218, 0xC694, 0xC77C], [0xBAA9, 0xC694, 0xC77C], [0xAE08, 0xC694, 0xC77C],
      [0xD1A0, 0xC694, 0xC77C]]"

record date_helpers =
  today :: jsstring
  tomorrow :: jsstring
  dayAfterTomorrow :: jsstring
  thisMonday :: jsstring
  thisTuesday :: jsstring
  thisWednesday :: jsstring
  thisThursday :: jsstring
  thisFriday :: jsstring
  thisSaturday :: jsstring
  thisSunday :: jsstring
  nextMonday :: jsstring
  nextTuesday :: jsstring
  nextWednesday :: jsstring
  nextThursday :: jsstring
  nextFriday :: jsstring
  nextSaturday :: jsstring
  nextSunday :: jsstring
  currentDayOfWeek :: jsstring
  currentYear :: int
  currentMonth :: int
  currentDate :: int

text \<open>\<open>getDateHelpers\<close> reads the clock once; the reading is the parameter \<open>now\<close>.\<close>

definition getDateHelpers :: "instant \<Rightarrow> date_helpers" where
  "getDateHelpers now =
     (let base = newDate (getFullYear now) (getMonth now) (getDate now);
          tom = setDate base (getDate base + 1);
          dat = setDate base (getDate base + 2)
      in \<lparr> today = formatDate base,
           tomorrow = formatDate tom,
           dayAfterTomorrow = formatDate dat,
           thisMonday = formatDate (getCurrentWeekDay base 1),
           thisTuesday = formatDate (getCurrentWeekDay base 2),
           thisWednesday = formatDate (getCurrentWeekDay base 3),
           thisThursday = formatDate (getCurrentWeekDay base 4),
           thisFriday = formatDate (getCurrentWeekDay base 5),
           thisSaturday = formatDate (getCurrentWeekDay base 6),
           thisSunday = formatDate (getCurrentWeekDay base 0),
           nextMonday = formatDate (getNextWeekDay base 1),
           nextTuesday = formatDate (getNextWeekDay base 2),
           nextWednesday = formatDate (getNextWeekDay base 3),
           nextThursday = formatDate (getNextWeekDay base 4),
           nextFriday = formatDate (getNextWeekDay base 5),
           nextSaturday = formatDate (getNextWeekDay base 6),
           nextSunday = formatDate (getNextWeekDay base 0),
           currentDayOfWeek = weekdayNames ! nat (getDay now),
           currentYear = getFullYear now,
           currentMonth = getMonth now + 1,
           currentDate = getDate now \<rparr>)"

section \<open>Regular expressions without repetition\<close>

text \<open>
  The time pattern of the source uses character ranges, literals, sequence, alternation and
  the optional operator. \<open>rests r s\<close> lists what can remain of \<open>s\<close> after \<open>r\<close> has matched
  a prefix of it, in the order a backtracking matcher tries them; a pattern anchored by
  \<open>^\<close> and \<open>$\<close> matches when the empty remainder is among them.
\<close>

datatype regex =
    Lit char16
  | Range char16 char16
  | Seq regex regex
  | Alt regex regex
  | Opt regex

fun rests :: "regex \<Rightarrow> jsstring \<Rightarrow> jsstring list" where
  "rests (Lit c) s = (case s of [] \<Rightarrow> [] | x # xs \<Rightarrow> if x = c then [xs] else [])"
| "rests (Range a b) s = (case s of [] \<Rightarrow> [] | x # xs \<Rightarrow> if a \<le> x \<and> x \<le> b then [xs] else [])"
| "rests (Seq r1 r2) s = concat (map (rests r2) (rests r1 s))"
| "rests (Alt r1 r2) s = rests r1 s @ rests r2 s"
| "rests (Opt r) s = rests r s @ [s]"

definition test_anchored :: "regex \<Rightarrow> jsstring \<Rightarrow> bool" where
  "test_anchored r s \<longleftrightarrow> [] \<in> set (rests r s)"

text \<open>The pattern \<open>/^([01]?[0-9]|2[0-3]):[0-5][0-9]$/\<close>.\<close>

definition timeRegex :: regex where
  "timeRegex =
     Seq (Alt (Seq (Opt (Range 0x30 0x31)) (Range 0x30 0x39)) (Seq (Lit 0x32) (Range 0x30 0x33)))
         (Seq (Lit 0x3A) (Seq (Range 0x30 0x35) (Range 0x30 0x39)))"

section \<open>parse-todo: the request handler\<close>

datatype priority = High | Medium | Low

datatype category = Work | Personal | Study | Health

text \<open>
  The object that the generation service returns under \<open>TodoParseSchema\<close>: the schema makes
  every field but the description mandatory and restricts priority and category to their
  enumerations, so the defaults that the handler substitutes for a missing priority or
  category never apply.
\<close>

record todo_parse =
  title :: jsstring
  description :: "jsstring option"
  due_date :: jsstring
  due_time :: jsstring
  priority :: priority
  category :: category

record final_result =
  out_title :: jsstring
  out_description :: jsstring
  out_due_date :: jsstring
  out_priority :: priority
  out_category :: category

text \<open>The failure responses of the handler, with their HTTP status.\<close>

datatype failure =
    MalformedBody
  | InputNotString
  | ValidationFailed validation_error
  | ServerConfig
  | InvalidExtractedDate
  | ServiceAuth
  | ServiceQuota
  | ServiceTimeout
  | ServiceNetwork
  | ResponseFormat
  | Unexpected

fun status :: "failure \<Rightarrow> nat" where
  "status MalformedBody = 400"
| "status InputNotString = 400"
| "status (ValidationFailed e) = 400"
| "status ServerConfig = 500"
| "status InvalidExtractedDate = 400"
| "status ServiceAuth = 401"
| "status ServiceQuota = 429"
| "status ServiceTimeout = 504"
| "status ServiceNetwork = 503"
| "status ResponseFormat = 500"
| "status Unexpected = 500"

text \<open>A thrown error, by its name and message; \<open>str_includes\<close> is the substring test \<open>includes\<close>.\<close>

record js_error =
  name :: jsstring
  message :: jsstring

definition str_includes :: "jsstring \<Rightarrow> jsstring \<Rightarrow> bool" where
  "str_includes s pat = list_ex (\<lambda>i. take (length pat) (drop i s) = pat) [0..<Suc (length s)]"

definition classifyError :: "js_error \<Rightarrow> failure" where
  "classifyError err =
     (if str_includes (message err) (str ''API key'') \<or> str_includes (message err) (str ''authentication'')
      then ServiceAuth
      else if str_includes (message err) (str ''quota'') \<or> str_includes (message err) (str ''limit'')
              \<or> str_includes (message err) (str ''429'')
      then ServiceQuota
      else if str_includes (message err) (str ''timeout'') \<or> str_includes (message err) (str ''ETIMEDOUT'')
      then ServiceTimeout
      else if str_includes (message err) (str ''network'') \<or> str_includes (message err) (str ''ECONNREFUSED'')
      then ServiceNetwork
      else if name err = str ''SyntaxError'' \<or> str_includes (message err) (str ''JSON'')
      then ResponseFormat
      else Unexpected)"

text \<open>
  What \<open>request.json()\<close> gives a handler: nothing when the body is not JSON (the call
  throws), the JSON value \<open>null\<close>, or any other JSON value, of which a handler reads one
  field; the field is \<open>None\<close> when it is missing or has not the type the handler expects.
\<close>

datatype 'a json_body = NotJson | JsonNull | JsonValue "'a option"

text \<open>
  A request body whose \<open>input\<close> field can be read: \<open>None\<close> when the body is not JSON,
  otherwise the \<open>input\<close> field, which is \<open>None\<close> when the field is missing or is not a
  string. The body \<open>null\<close>, on which reading the field throws, is dealt with in \<open>POST\<close>.
\<close>

type_synonym request_body = "jsstring option option"

text \<open>
  Lines 191 to 231: the checks before the generation service is called, for a body that is
  not \<open>null\<close>.
\<close>

definition POST_validate :: "request_body \<Rightarrow> failure + jsstring" where
  "POST_validate body =
     (case body of
        None \<Rightarrow> Inl MalformedBody
      | Some None \<Rightarrow> Inl InputNotString
      | Some (Some input) \<Rightarrow>
          if input = [] then Inl InputNotString
          else let processedInput = preprocessInput input
               in case validateInput processedInput of
                    Invalid e \<Rightarrow> Inl (ValidationFailed e)
                  | Valid \<Rightarrow> Inr processedInput)"

text \<open>
  Lines 516 to 543: the date check, the correction of a past date and the default for the
  time, on the object returned by the service. \<open>parseDate\<close> is the platform's
  \<open>new Date(string)\<close>, \<open>None\<close> for \<open>Invalid Date\<close>; \<open>dates\<close> is the table built by
  \<open>getDateHelpers\<close> before the call and \<open>now\<close> the reading of the clock taken after it.
\<close>

definition POST_postprocess ::
  "(jsstring \<Rightarrow> instant option) \<Rightarrow> date_helpers \<Rightarrow> instant \<Rightarrow> todo_parse \<Rightarrow> failure + todo_parse" where
  "POST_postprocess parseDate dates now parsedData =
     (case parseDate (due_date parsedData) of
        None \<Rightarrow> Inl InvalidExtractedDate
      | Some dueDate \<Rightarrow>
          let base = newDate (getFullYear now) (getMonth now) (getDate now);
              dueDateOnly = newDate (getFullYear dueDate) (getMonth dueDate) (getDate dueDate);
              parsedData = (if dueDateOnly < base
                            then parsedData\<lparr>due_date := today dates\<rparr> else parsedData);
              parsedData = (if \<not> test_anchored timeRegex (due_time parsedData)
                            then parsedData\<lparr>due_time := str ''09:00''\<rparr> else parsedData)
          in Inr parsedData)"

text \<open>
  The environment of one request: whether the API key is configured, the two readings of
  the clock (in \<open>getDateHelpers\<close> and in the handler), the generation service as a function
  of the normalized input, the date table and the clock (the prompt is built from these
  three), the platform's date parser, and the combination of the corrected date and time
  into an ISO timestamp (\<open>split\<close>, \<open>parseInt\<close>, \<open>new Date\<close> and \<open>toISOString\<close>, which
  depends on the time zone; \<open>None\<close> when \<open>toISOString\<close> throws on an invalid date).
\<close>

record env =
  apiKey :: bool
  clock1 :: instant
  clock2 :: instant
  generateObject :: "jsstring \<Rightarrow> date_helpers \<Rightarrow> instant \<Rightarrow> js_error + todo_parse"
  parseDate :: "jsstring \<Rightarrow> instant option"
  toISOString :: "jsstring \<Rightarrow> jsstring \<Rightarrow> jsstring option"

definition POST_handle :: "env \<Rightarrow> request_body \<Rightarrow> failure + final_result" where
  "POST_handle e body =
     (case POST_validate body of
        Inl f \<Rightarrow> Inl f
      | Inr processedInput \<Rightarrow>
          if \<not> apiKey e then Inl ServerConfig
          else let dates = getDateHelpers (clock1 e);
                   now = clock2 e
               in case generateObject e processedInput dates now of
                    Inl err \<Rightarrow> Inl (classifyError err)
                  | Inr parsedData \<Rightarrow>
                      (case POST_postprocess (parseDate e) dates now parsedData of
                         Inl f \<Rightarrow> Inl f
                       | Inr parsedData \<Rightarrow>
                           let processedTitle = postprocessTitle (title parsedData);
                               processedDescription = postprocessDescription (description parsedData);
                               processedPriority = priority parsedData;
                               processedCategory = category parsedData
                           in case toISOString e (due_date parsedData) (due_time parsedData) of
                                None \<Rightarrow> Inl Unexpected
                              | Some isoString \<Rightarrow>
                                  Inr \<lparr> out_title = processedTitle,
                                        out_description = processedDescription,
                                        out_due_date = isoString,
                                        out_priority = processedPriority,
                                        out_category = processedCategory \<rparr>))"

text \<open>
  The handler on every body. On the body \<open>null\<close> the destructuring of line 205 throws a
  \<open>TypeError\<close>, whose message matches none of the patterns of the \<open>catch\<close> block, and the
  answer is the general failure with status 500.
\<close>

definition POST :: "env \<Rightarrow> jsstring json_body \<Rightarrow> failure + final_result" where
  "POST e body =
     (case body of
        NotJson \<Rightarrow> POST_handle e None
      | JsonNull \<Rightarrow> Inl Unexpected
      | JsonValue input \<Rightarrow> POST_handle e (Some input))"

section \<open>analyze-todos: getDateRange\<close>

datatype AnalysisPeriod = Today | Week

record date_range =
  range_start :: instant
  range_end :: instant

text \<open>\<open>getDateRange\<close> reads the clock once; the reading is the parameter \<open>now\<close>.\<close>

definition getDateRange :: "AnalysisPeriod \<Rightarrow> instant \<Rightarrow> date_range" where
  "getDateRange period now =
     (let base = newDate (getFullYear now) (getMonth now) (getDate now)
      in if period = Today
         then \<lparr> range_start = base, range_end = setHours base 23 59 59 999 \<rparr>
         else let dayOfWeek = getDay base;
                  diff = (if dayOfWeek = 0 then - 6 else 1 - dayOfWeek);
                  weekStart = setDate base (getDate base + diff);
                  weekStart = setHours weekStart 0 0 0 0;
                  weekEnd = setDate weekStart (getDate weekStart + 6);
                  weekEnd = setHours weekEnd 23 59 59 999
              in \<lparr> range_start = weekStart, range_end = weekEnd \<rparr>)"

section \<open>analyze-todos: the request handler\<close>

text \<open>A row of the \<open>todos\<close> table; \<open>None\<close> is \<open>null\<close>.\<close>

record todo =
  todo_title :: jsstring
  todo_description :: "jsstring option"
  todo_due_date :: "jsstring option"
  todo_priority :: jsstring
  todo_category :: jsstring
  todo_completed :: bool
  todo_created_at :: jsstring

record AnalysisResult =
  summary :: jsstring
  urgentTasks :: "jsstring list"
  insights :: "jsstring list"
  recommendations :: "jsstring list"

text \<open>The Korean texts of the handler, as code units.\<close>

definition msgNoTodos :: jsstring where
  "msgNoTodos =
    [0xC544, 0xC9C1, 0x0020, 0xB4F1, 0xB85D, 0xB41C, 0x0020, 0xD560, 0x0020, 0xC77C, 0xC774,
     0x0020, 0xC5C6, 0xC2B5, 0xB2C8, 0xB2E4, 0x002E]"

definition msgAddTodo :: jsstring where
  "msgAddTodo =
    [0xC0C8, 0xB85C, 0xC6B4, 0x0020, 0xD560, 0x0020, 0xC77C, 0xC744, 0x0020, 0xCD94, 0xAC00,
     0xD574, 0xBCF4, 0xC138, 0xC694, 0x0021]"

definition msgManageTodos :: jsstring where
  "msgManageTodos =
    [0xD560, 0x0020, 0xC77C, 0xC744, 0x0020, 0xCD94, 0xAC00, 0xD558, 0xACE0, 0x0020, 0xD6A8,
     0xC728, 0xC801, 0xC73C, 0xB85C, 0x0020, 0xAD00, 0xB9AC, 0xD574, 0xBCF4, 0xC138, 0xC694,
     0x002E]"

definition msgNothingScheduled :: jsstring where
  "msgNothingScheduled =
    [0xC5D0, 0x0020, 0xC608, 0xC815, 0xB41C, 0x0020, 0xD560, 0x0020, 0xC77C, 0xC774, 0x0020,
     0xC5C6, 0xC2B5, 0xB2C8, 0xB2E4, 0x002E]"

definition msgScheduleEmpty :: jsstring where
  "msgScheduleEmpty =
    [0xC758, 0x0020, 0xC77C, 0xC815, 0xC774, 0x0020, 0xBE44, 0xC5B4, 0xC788, 0xC2B5, 0xB2C8,
     0xB2E4, 0x002E]"

definition msgPlanTodo :: jsstring where
  "msgPlanTodo =
    [0xC0C8, 0xB85C, 0xC6B4, 0x0020, 0xD560, 0x0020, 0xC77C, 0xC744, 0x0020, 0xACC4, 0xD68D,
     0xD574, 0xBCF4, 0xC138, 0xC694, 0x002E]"

definition textToday :: jsstring where
  "textToday =
    [0xC624, 0xB298]"

definition textThisWeek :: jsstring where
  "textThisWeek =
    [0xC774, 0xBC88, 0x0020, 0xC8FC]"

definition sumTotal :: jsstring where
  "sumTotal =
    [0x0020, 0xCD1D, 0x0020]"

definition sumOf :: jsstring where
  "sumOf =
    [0xAC1C, 0xC758, 0x0020, 0xD560, 0x0020, 0xC77C, 0x0020, 0xC911, 0x0020]"

definition sumDone :: jsstring where
  "sumDone =
    [0xAC1C, 0x0020, 0xC644, 0xB8CC, 0x0020, 0x0028]"

definition sumClose :: jsstring where
  "sumClose =
    [0x0025, 0x0029]"

definition insRate :: jsstring where
  "insRate =
    [0xC644, 0xB8CC, 0xC728, 0xC740, 0x0020]"

definition insRateEnd :: jsstring where
  "insRateEnd =
    [0x0025, 0xC785, 0xB2C8, 0xB2E4, 0x002E]"

definition insRemaining :: jsstring where
  "insRemaining =
    [0xAC1C, 0xC758, 0x0020, 0xD560, 0x0020, 0xC77C, 0xC774, 0x0020, 0xC544, 0xC9C1, 0x0020,
     0xB0A8, 0xC544, 0xC788, 0xC2B5, 0xB2C8, 0xB2E4, 0x002E]"

definition recPriority :: jsstring where
  "recPriority =
    [0xC6B0, 0xC120, 0xC21C, 0xC704, 0xAC00, 0x0020, 0xB192, 0xC740, 0x0020, 0xC791, 0xC5C5,
     0xBD80, 0xD130, 0x0020, 0xCC98, 0xB9AC, 0xD574, 0xBCF4, 0xC138, 0xC694, 0x002E]"

definition recSmall :: jsstring where
  "recSmall =
    [0xC791, 0xC740, 0x0020, 0xD560, 0x0020, 0xC77C, 0xBD80, 0xD130, 0x0020, 0xD558, 0xB098,
     0xC529, 0x0020, 0xC644, 0xB8CC, 0xD558, 0xBA70, 0x0020, 0xC131, 0xCDE8, 0xAC10, 0xC744,
     0x0020, 0xB290, 0xAEF4, 0xBCF4, 0xC138, 0xC694, 0x002E]"

definition priorityHigh :: jsstring where
  "priorityHigh =
    [0xB192, 0xC74C]"

definition periodText :: "AnalysisPeriod \<Rightarrow> jsstring" where
  "periodText period = (if period = Today then textToday else textThisWeek)"

text \<open>
  \<open>s.replace(/P\n?/g, '')\<close> for a literal \<open>P\<close> that is not empty: every occurrence of
  \<open>P\<close>, with the newline after it when there is one, is removed.
\<close>

definition skipNewline :: "jsstring \<Rightarrow> jsstring" where
  "skipNewline s = (case s of [] \<Rightarrow> [] | x # xs \<Rightarrow> if x = 0x0A then xs else s)"

function removeAll :: "jsstring \<Rightarrow> jsstring \<Rightarrow> jsstring" where
  "removeAll pat [] = []"
| "removeAll pat (c # cs) =
     (if pat \<noteq> [] \<and> take (length pat) (c # cs) = pat
      then removeAll pat (skipNewline (drop (length pat) (c # cs)))
      else c # removeAll pat cs)"
  by pat_completeness auto
termination
proof (relation "measure (\<lambda>(pat, s). length s)", goal_cases)
  case 1
  show ?case by simp
next
  case (2 pat c cs)
  have "length (skipNewline s) \<le> length s" for s
    by (simp add: skipNewline_def split: list.splits)
  from this[of "drop (length pat) (c # cs)"] 2 show ?case
    by (cases pat) auto
next
  case (3 pat c cs)
  show ?case by simp
qed

definition fenceJson :: jsstring where
  "fenceJson = str ''```json''"

definition fence :: jsstring where
  "fence = str ''```''"

text \<open>Lines 131 to 135: whether a row is due inside the window.\<close>

definition inRange :: "(jsstring \<Rightarrow> instant option) \<Rightarrow> date_range \<Rightarrow> todo \<Rightarrow> bool" where
  "inRange parse dateRange t =
     (case todo_due_date t of
        None \<Rightarrow> False
      | Some s \<Rightarrow>
          if s = [] then False
          else case parse s of
                 None \<Rightarrow> False
               | Some dueDate \<Rightarrow> dueDate \<ge> range_start dateRange \<and> dueDate \<le> range_end dateRange)"

definition cannedNoTodos :: AnalysisResult where
  "cannedNoTodos =
     \<lparr> summary = msgNoTodos, urgentTasks = [], insights = [msgAddTodo],
       recommendations = [msgManageTodos] \<rparr>"

definition cannedNoneInPeriod :: "AnalysisPeriod \<Rightarrow> AnalysisResult" where
  "cannedNoneInPeriod period =
     \<lparr> summary = periodText period @ msgNothingScheduled, urgentTasks = [],
       insights = [periodText period @ msgScheduleEmpty],
       recommendations = [msgPlanTodo] \<rparr>"

text \<open>
  Lines 182 to 185 and 407 to 424: the counts and the answer built from them when the text of
  the service is not JSON. \<open>fixed1 c t\<close> stands for \<open>((c / t) * 100).toFixed(1)\<close>, a
  floating-point computation of the platform.
\<close>

definition fallbackAnalysis ::
  "(nat \<Rightarrow> nat \<Rightarrow> jsstring) \<Rightarrow> AnalysisPeriod \<Rightarrow> todo list \<Rightarrow> AnalysisResult" where
  "fallbackAnalysis fixed1 period filteredTodos =
     (let totalCount = length filteredTodos;
          completedCount = length (filter todo_completed filteredTodos);
          completionRate = (if totalCount > 0 then fixed1 completedCount totalCount else str ''0'')
      in \<lparr> summary = periodText period @ sumTotal @ String (int totalCount) @ sumOf @
             String (int completedCount) @ sumDone @ completionRate @ sumClose,
           urgentTasks =
             map todo_title
               (take 5 (filter (\<lambda>t. \<not> todo_completed t \<and> todo_priority t = priorityHigh)
                  filteredTodos)),
           insights =
             [insRate @ completionRate @ insRateEnd,
              String (int totalCount - int completedCount) @ insRemaining],
           recommendations = [recPriority, recSmall] \<rparr>)"

datatype analyze_failure =
    BadBody
  | BadPeriod
  | Unauthorized
  | StoreFailure
  | NoApiKey
  | QuotaExceeded
  | AnalysisError

fun analyze_status :: "analyze_failure \<Rightarrow> nat" where
  "analyze_status BadBody = 400"
| "analyze_status BadPeriod = 400"
| "analyze_status Unauthorized = 401"
| "analyze_status StoreFailure = 500"
| "analyze_status NoApiKey = 500"
| "analyze_status QuotaExceeded = 429"
| "analyze_status AnalysisError = 500"

definition classifyAnalyzeError :: "js_error \<Rightarrow> analyze_failure" where
  "classifyAnalyzeError err =
     (if str_includes (message err) (str ''quota'') \<or> str_includes (message err) (str ''limit'')
      then QuotaExceeded else AnalysisError)"

text \<open>
  The data of a success response: an \<open>AnalysisResult\<close> built by the handler, or whatever
  value \<open>JSON.parse\<close> returned for the text of the service.
\<close>

datatype 'j analysis_data = Built AnalysisResult | Parsed 'j

text \<open>
  The environment of one request: whether a user is signed in, whether the query failed, the
  rows it returned (\<open>None\<close> for \<open>null\<close>), whether the API key is configured, the readings of
  the clock in \<open>getDateRange\<close> and in the handler, the prompt as a function of what it is
  built from, the generation service, the platform's date parser, \<open>JSON.parse\<close> (\<open>None\<close>
  when it throws) and the rounding of the completion rate.
\<close>

record 'j analyze_env =
  user :: bool
  todosError :: bool
  todos :: "todo list option"
  hasApiKey :: bool
  rangeClock :: instant
  statsClock :: instant
  buildPrompt :: "AnalysisPeriod \<Rightarrow> date_range \<Rightarrow> instant \<Rightarrow> todo list \<Rightarrow> jsstring"
  generateText :: "jsstring \<Rightarrow> js_error + jsstring"
  newDateOfString :: "jsstring \<Rightarrow> instant option"
  JSON_parse :: "jsstring \<Rightarrow> 'j option"
  toFixed1 :: "nat \<Rightarrow> nat \<Rightarrow> jsstring"

text \<open>
  The handler returns its response together with the prompts it sent to the generation
  service, in order. The body is \<open>None\<close> when it is not JSON, otherwise its \<open>period\<close>
  field, which is \<open>None\<close> unless it is one of the two period names. The body \<open>null\<close>, on
  which reading the field throws, is dealt with in \<open>POST_analyze_request\<close>.
\<close>

definition POST_analyze ::
  "'j analyze_env \<Rightarrow> AnalysisPeriod option option \<Rightarrow>
     (analyze_failure + 'j analysis_data) \<times> jsstring list" where
  "POST_analyze e body =
     (case body of
        None \<Rightarrow> (Inl BadBody, [])
      | Some None \<Rightarrow> (Inl BadPeriod, [])
      | Some (Some period) \<Rightarrow>
          if \<not> user e then (Inl Unauthorized, [])
          else let dateRange = getDateRange period (rangeClock e)
               in if todosError e then (Inl StoreFailure, [])
                  else case todos e of
                         None \<Rightarrow> (Inr (Built cannedNoTodos), [])
                       | Some rows \<Rightarrow>
                           if rows = [] then (Inr (Built cannedNoTodos), [])
                           else let filteredTodos = filter (inRange (newDateOfString e) dateRange) rows
                                in if filteredTodos = []
                                   then (Inr (Built (cannedNoneInPeriod period)), [])
                                   else if \<not> hasApiKey e then (Inl NoApiKey, [])
                                   else let now = statsClock e;
                                            prompt = buildPrompt e period dateRange now filteredTodos
                                        in case generateText e prompt of
                                             Inl err \<Rightarrow> (Inl (classifyAnalyzeError err), [prompt])
                                           | Inr text \<Rightarrow>
                                               let cleanedText = trim text;
                                                   cleanedText =
                                                     removeAll fence (removeAll fenceJson cleanedText)
                                               in case JSON_parse e cleanedText of
                                                    None \<Rightarrow>
                                                      (Inr (Built (fallbackAnalysis (toFixed1 e) period
                                                         filteredTodos)), [prompt])
                                                  | Some analysisResult \<Rightarrow>
                                                      (Inr (Parsed analysisResult), [prompt]))"

text \<open>
  The handler on every body. On the body \<open>null\<close> the destructuring of line 67 throws a
  \<open>TypeError\<close>, whose message has neither \<open>quota\<close> nor \<open>limit\<close> in it, and the answer is
  the general failure with status 500; nothing was sent to the generation service.
\<close>

definition POST_analyze_request ::
  "'j analyze_env \<Rightarrow> AnalysisPeriod json_body \<Rightarrow>
     (analyze_failure + 'j analysis_data) \<times> jsstring list" where
  "POST_analyze_request e body =
     (case body of
        NotJson \<Rightarrow> POST_analyze e None
      | JsonNull \<Rightarrow> (Inl AnalysisError, [])
      | JsonValue period \<Rightarrow> POST_analyze e (Some period))"

section \<open>The time formats\<close>

text \<open>
  Strict \<open>HH:MM\<close> as the specification words it: two digits for an hour from 00 to 23, a
  colon, two digits for a minute from 00 to 59. \<open>oneDigitHourMM\<close> is the same with an hour
  written as a single digit.
\<close>

definition isDigit :: "char16 \<Rightarrow> bool" where
  "isDigit c \<longleftrightarrow> 0x30 \<le> c \<and> c \<le> 0x39"

fun strictHHMM :: "jsstring \<Rightarrow> bool" where
  "strictHHMM [h1, h2, c, m1, m2] \<longleftrightarrow>
     ((0x30 \<le> h1 \<and> h1 \<le> 0x31 \<and> isDigit h2) \<or> (h1 = 0x32 \<and> 0x30 \<le> h2 \<and> h2 \<le> 0x33)) \<and>
     c = 0x3A \<and> 0x30 \<le> m1 \<and> m1 \<le> 0x35 \<and> isDigit m2"
| "strictHHMM _ \<longleftrightarrow> False"

fun oneDigitHourMM :: "jsstring \<Rightarrow> bool" where
  "oneDigitHourMM [h, c, m1, m2] \<longleftrightarrow>
     isDigit h \<and> c = 0x3A \<and> 0x30 \<le> m1 \<and> m1 \<le> 0x35 \<and> isDigit m2"
| "oneDigitHourMM _ \<longleftrightarrow> False"

section \<open>Sample data\<close>

definition sampleParsed :: todo_parse where
  "sampleParsed =
     \<lparr> title = str ''Report'', description = None, due_date = str ''2024-06-11'',
       due_time = str ''15:00'', priority = Medium, category = Work \<rparr>"

definition dates0 :: date_helpers where
  "dates0 = getDateHelpers 1718000000000"

text \<open>
  Four rows: three due on 2024-06-10, none of them completed and one of high priority, and
  one due on 2024-06-20. The sample environment answers with a text that is not JSON.
\<close>

definition sampleRow :: "jsstring \<Rightarrow> jsstring \<Rightarrow> jsstring \<Rightarrow> todo" where
  "sampleRow t due prio =
     \<lparr> todo_title = t, todo_description = None, todo_due_date = Some due,
       todo_priority = prio, todo_category = str ''work'', todo_completed = False,
       todo_created_at = str ''2024-06-01T00:00:00'' \<rparr>"

definition sampleRows :: "todo list" where
  "sampleRows =
     [sampleRow (str ''Report'') (str ''2024-06-10T09:00:00'') priorityHigh,
      sampleRow (str ''Lunch'') (str ''2024-06-10T12:00:00'') (str ''medium''),
      sampleRow (str ''Walk'') (str ''2024-06-10T18:00:00'') (str ''low''),
      sampleRow (str ''Exam'') (str ''2024-06-20T09:00:00'') priorityHigh]"

text \<open>Six rows due on 2024-06-10, none of them completed and all of high priority.\<close>

definition sampleUrgentRows :: "todo list" where
  "sampleUrgentRows =
     [sampleRow (str ''T1'') (str ''2024-06-10T09:00:00'') priorityHigh,
      sampleRow (str ''T2'') (str ''2024-06-10T09:00:00'') priorityHigh,
      sampleRow (str ''T3'') (str ''2024-06-10T09:00:00'') priorityHigh,
      sampleRow (str ''T4'') (str ''2024-06-10T09:00:00'') priorityHigh,
      sampleRow (str ''T5'') (str ''2024-06-10T09:00:00'') priorityHigh,
      sampleRow (str ''T6'') (str ''2024-06-10T09:00:00'') priorityHigh]"

definition sampleEnv :: "unit analyze_env" where
  "sampleEnv =
     \<lparr> user = True, todosError = False, todos = Some sampleRows, hasApiKey = True,
       rangeClock = 1718000000000, statsClock = 1718000000000,
       buildPrompt = (\<lambda>period dateRange now rows. str ''prompt''),
       generateText = (\<lambda>prompt. Inr (str ''Sorry, I cannot answer.'')),
       newDateOfString =
         [str ''2024-06-10T09:00:00'' \<mapsto> 1718010000000,
          str ''2024-06-10T12:00:00'' \<mapsto> 1718020800000,
          str ''2024-06-10T18:00:00'' \<mapsto> 1718042400000,
          str ''2024-06-20T09:00:00'' \<mapsto> 1718874000000],
       JSON_parse = (\<lambda>text. None),
       toFixed1 = (\<lambda>c t. if c = 0 then str ''0.0'' else str ''100.0'') \<rparr>"

section \<open>Auxiliary predicates\<close>

text \<open>
  A string in which every whitespace character is a single space that is not followed by
  another whitespace character. Used to describe the result of \<open>preprocessInput\<close>.
\<close>

fun collapsed :: "jsstring \<Rightarrow> bool" where
  "collapsed [] = True"
| "collapsed (c # cs) =
     ((isWhiteSpace c \<longrightarrow> c = 0x20 \<and> (cs = [] \<or> \<not> isWhiteSpace (hd cs))) \<and> collapsed cs)"

text \<open>An incomplete High-priority record, in the words of the specification.\<close>

definition incompleteHighPriority :: "todo \<Rightarrow> bool" where
  "incompleteHighPriority t \<longleftrightarrow> \<not> todo_completed t \<and> todo_priority t = priorityHigh"

text \<open>The \<open>AnalysisResult\<close> of a success response that the handler built itself.\<close>

fun builtResult :: "analyze_failure + 'j analysis_data \<Rightarrow> AnalysisResult option" where
  "builtResult (Inr (Built res)) = Some res"
| "builtResult (Inr (Parsed v)) = None"
| "builtResult (Inl f) = None"

section \<open>Properties\<close>

subsection \<open>Title clamp\<close>

lemma length_placeholderTitle: "length placeholderTitle = 5"
  by (simp add: placeholderTitle_def)

lemma length_ellipsis: "length ellipsis = 3"
  by (simp add: ellipsis_def str_def)

text \<open>
  Claim C5. The title is trimmed first. A trimmed title of fewer than 2 code units becomes
  the placeholder; one of more than 100 code units becomes its first 97 code units followed
  by the three-character ellipsis, which is exactly 100 code units; any other trimmed title
  is returned as it is.
\<close>

theorem postprocessTitle_clamp:
  "(length (trim t) < 2 \<longrightarrow> postprocessTitle t = placeholderTitle) \<and>
   (100 < length (trim t) \<longrightarrow>
      postprocessTitle t = take 97 (trim t) @ ellipsis \<and> length (postprocessTitle t) = 100) \<and>
   (2 \<le> length (trim t) \<and> length (trim t) \<le> 100 \<longrightarrow> postprocessTitle t = trim t)"
  by (simp add: postprocessTitle_def Let_def TITLE_MIN_LENGTH_def TITLE_MAX_LENGTH_def
      length_placeholderTitle length_ellipsis)

theorem postprocessTitle_clamp_witness:
  "length (trim (str ''a'')) < 2 \<and> postprocessTitle (str ''a'') = placeholderTitle \<and>
   100 < length (trim (replicate 150 0x61)) \<and> length (postprocessTitle (replicate 150 0x61)) = 100 \<and>
   2 \<le> length (trim (str '' ab '')) \<and> length (trim (str '' ab '')) \<le> 100 \<and>
   postprocessTitle (str '' ab '') = str ''ab''"
proof -
  have 1: "length (trim (str ''a'')) < 2" by code_simp
  have 2: "100 < length (trim (replicate 150 0x61))" by code_simp
  have 3: "trim (str '' ab '') = str ''ab''" by code_simp
  have 4: "length (str ''ab'') = 2" by code_simp
  show ?thesis
    using postprocessTitle_clamp[of "str ''a''"] postprocessTitle_clamp[of "replicate 150 0x61"]
      postprocessTitle_clamp[of "str '' ab ''"] 1 2 3 4 by (simp add: length_ellipsis)
qed

subsection \<open>The input normalizer\<close>

lemma last_dropWhile_nonempty:
  "dropWhile P xs \<noteq> [] \<Longrightarrow> last (dropWhile P xs) = last xs"
  by (induction xs) (auto split: if_splits)

lemma trim_ends:
  "trim s = [] \<or> (\<not> isWhiteSpace (hd (trim s)) \<and> \<not> isWhiteSpace (last (trim s)))"
proof (cases "trim s = []")
  case True
  then show ?thesis by simp
next
  case False
  define a where "a = dropWhile isWhiteSpace s"
  define b where "b = dropWhile isWhiteSpace (rev a)"
  have t: "trim s = rev b" by (simp add: trim_def a_def b_def)
  with False have b: "b \<noteq> []" by simp
  then have a: "a \<noteq> []" by (auto simp: b_def)
  have "\<not> isWhiteSpace (hd b)" using b unfolding b_def by (rule hd_dropWhile)
  then have 1: "\<not> isWhiteSpace (last (trim s))" using b by (simp add: t last_rev)
  have "last b = last (rev a)" using b unfolding b_def by (rule last_dropWhile_nonempty)
  then have "hd (trim s) = hd a" using a b by (simp add: t hd_rev last_rev)
  moreover have "\<not> isWhiteSpace (hd a)" using a unfolding a_def by (rule hd_dropWhile)
  ultimately show ?thesis using 1 by simp
qed

lemma trim_id:
  assumes "s = [] \<or> (\<not> isWhiteSpace (hd s) \<and> \<not> isWhiteSpace (last s))"
  shows "trim s = s"
proof (cases s)
  case Nil
  then show ?thesis by (simp add: trim_def)
next
  case (Cons c cs)
  with assms have h: "\<not> isWhiteSpace c" and l: "\<not> isWhiteSpace (last s)" by auto
  from h Cons have 1: "dropWhile isWhiteSpace s = s" by simp
  have "s = butlast s @ [last s]" using Cons by simp
  then have "rev s = last s # rev (butlast s)" by (metis rev.simps(2) rev_append rev_rev_ident rev_singleton_conv append_Cons append_Nil)
  then have 2: "dropWhile isWhiteSpace (rev s) = rev s"
    using l by (metis dropWhile.simps(2))
  show ?thesis by (simp add: trim_def 1 2)
qed

lemma replaceRuns_hd:
  "xs \<noteq> [] \<Longrightarrow> \<not> P (hd xs) \<Longrightarrow> replaceRuns P r xs \<noteq> [] \<and> hd (replaceRuns P r xs) = hd xs"
  by (cases xs) auto

lemma replaceRuns_last:
  "xs \<noteq> [] \<Longrightarrow> \<not> P (last xs) \<Longrightarrow> r \<noteq> [] \<Longrightarrow>
   replaceRuns P r xs \<noteq> [] \<and> last (replaceRuns P r xs) = last xs"
proof (induction P r xs rule: replaceRuns.induct)
  case (1 P r)
  then show ?case by simp
next
  case (2 P r c cs)
  show ?case
  proof (cases "P c")
    case True
    with 2 have cs: "cs \<noteq> []" by auto
    with 2 have l: "\<not> P (last cs)" by simp
    have "last cs \<in> set cs" using cs by simp
    with l have d: "dropWhile P cs \<noteq> []" by (auto simp: dropWhile_eq_Nil_conv)
    then have "last (dropWhile P cs) = last cs" by (rule last_dropWhile_nonempty)
    with 2 True d l show ?thesis using cs by simp
  next
    case False
    with 2 show ?thesis by (cases "cs = []") auto
  qed
qed

lemma collapsed_replaceRuns: "collapsed (replaceRuns isWhiteSpace [0x20] t)"
proof (induction "isWhiteSpace" "[0x20::char16]" t rule: replaceRuns.induct)
  case 1
  then show ?case by simp
next
  case (2 c cs)
  show ?case
  proof (cases "isWhiteSpace c")
    case True
    define d where "d = dropWhile isWhiteSpace cs"
    have "d = [] \<or> \<not> isWhiteSpace (hd d)"
      unfolding d_def using hd_dropWhile[of isWhiteSpace cs] by blast
    then have "replaceRuns isWhiteSpace [0x20] d = [] \<or>
        \<not> isWhiteSpace (hd (replaceRuns isWhiteSpace [0x20] d))"
      using replaceRuns_hd[of d isWhiteSpace "[0x20]"] by (cases "d = []") auto
    with 2 True show ?thesis by (simp add: d_def)
  next
    case False
    with 2 show ?thesis by simp
  qed
qed

lemma replaceRuns_collapsed: "collapsed u \<Longrightarrow> replaceRuns isWhiteSpace [0x20] u = u"
proof (induction u)
  case Nil
  then show ?case by simp
next
  case (Cons c cs)
  then have "isWhiteSpace c \<Longrightarrow> dropWhile isWhiteSpace cs = cs" by (cases cs) auto
  with Cons show ?case by auto
qed

lemma replaceRuns_newline_collapsed: "collapsed u \<Longrightarrow> replaceRuns isNewline [0x0A] u = u"
proof (induction u)
  case Nil
  then show ?case by simp
next
  case (Cons c cs)
  have "\<not> isNewline c"
  proof
    assume n: "isNewline c"
    then have "isWhiteSpace c" by (simp add: isNewline_def isWhiteSpace_def)
    with Cons.prems have "c = 0x20" by simp
    with n show False by (simp add: isNewline_def)
  qed
  with Cons show ?case by simp
qed

lemma preprocessInput_eq: "preprocessInput s = replaceRuns isWhiteSpace [0x20] (trim s)"
  by (simp add: preprocessInput_def Let_def replaceRuns_newline_collapsed collapsed_replaceRuns)

lemma preprocessInput_ends:
  "preprocessInput s = [] \<or>
   (\<not> isWhiteSpace (hd (preprocessInput s)) \<and> \<not> isWhiteSpace (last (preprocessInput s)))"
proof (cases "trim s = []")
  case True
  then show ?thesis by (simp add: preprocessInput_eq)
next
  case False
  with trim_ends[of s] have h: "\<not> isWhiteSpace (hd (trim s))" and l: "\<not> isWhiteSpace (last (trim s))"
    by auto
  from False h l show ?thesis
    using replaceRuns_hd[of "trim s" isWhiteSpace "[0x20]"]
      replaceRuns_last[of "trim s" isWhiteSpace "[0x20]"]
    by (simp add: preprocessInput_eq)
qed

text \<open>
  Claim C8. The input normalizer is idempotent: normalizing a normalized string changes
  nothing. Here normalizing is \<open>preprocessInput\<close>: trim, then every run of whitespace
  becomes one space, then every run of newlines becomes one newline.
\<close>

theorem preprocessInput_idempotent: "preprocessInput (preprocessInput s) = preprocessInput s"
proof -
  have "trim (preprocessInput s) = preprocessInput s"
    using preprocessInput_ends by (rule trim_id)
  moreover have "collapsed (preprocessInput s)"
    by (simp add: preprocessInput_eq collapsed_replaceRuns)
  ultimately show ?thesis
    using preprocessInput_eq[of "preprocessInput s"] by (simp add: replaceRuns_collapsed)
qed


subsection \<open>Validation of the input\<close>

lemma hasMeaningfulText_iff:
  "hasMeaningfulText s \<longleftrightarrow>
     (\<exists>c \<in> set s. (0x3131 \<le> c \<and> c \<le> 0x318E) \<or> (0xAC00 \<le> c \<and> c \<le> 0xD7A3) \<or>
        (0x61 \<le> c \<and> c \<le> 0x7A) \<or> (0x41 \<le> c \<and> c \<le> 0x5A) \<or> (0x30 \<le> c \<and> c \<le> 0x39) \<or>
        (0x4E00 \<le> c \<and> c \<le> 0x9FFF) \<or> (0x3040 \<le> c \<and> c \<le> 0x309F) \<or>
        (0x30A0 \<le> c \<and> c \<le> 0x30FF))"
  unfolding hasMeaningfulText_def hasKorean_def hasAlphabetic_def hasNumeric_def
    hasChinese_def hasJapanese_def list_ex_iff
  by blast

text \<open>
  Claim C7, amended. For a string of 2 to 500 code units, validation fails with
  \<open>NoMeaningfulText\<close> when the string has no character of the Hangul, Latin letter, digit,
  CJK ideograph or kana ranges, and passes when it has one. The length checks come first:
  the empty string fails with \<open>EmptyInput\<close>, a string of one code unit with \<open>TooShort\<close>
  and a string of more than 500 code units with \<open>TooLong\<close>, whatever their characters.
\<close>

theorem validateInput_meaningful:
  "(2 \<le> length s \<and> length s \<le> 500 \<longrightarrow>
      (\<not> hasMeaningfulText s \<longrightarrow> validateInput s = Invalid NoMeaningfulText) \<and>
      (hasMeaningfulText s \<longrightarrow> validateInput s = Valid)) \<and>
   (s = [] \<longrightarrow> validateInput s = Invalid EmptyInput) \<and>
   (length s = 1 \<longrightarrow> validateInput s = Invalid TooShort) \<and>
   (500 < length s \<longrightarrow> validateInput s = Invalid (TooLong (length s)))"
  by (auto simp: validateInput_def INPUT_MIN_LENGTH_def INPUT_MAX_LENGTH_def)

theorem validateInput_meaningful_witness:
  "2 \<le> length (str ''!?'') \<and> length (str ''!?'') \<le> 500 \<and> \<not> hasMeaningfulText (str ''!?'') \<and>
   validateInput (str ''!?'') = Invalid NoMeaningfulText \<and>
   2 \<le> length (str ''a!'') \<and> length (str ''a!'') \<le> 500 \<and> hasMeaningfulText (str ''a!'') \<and>
   validateInput (str ''a!'') = Valid \<and>
   validateInput [] = Invalid EmptyInput \<and>
   length (str ''!'') = 1 \<and> validateInput (str ''!'') = Invalid TooShort \<and>
   500 < length (replicate 501 (0x21::char16)) \<and>
   validateInput (replicate 501 0x21) = Invalid (TooLong 501)"
proof -
  have 1: "\<not> hasMeaningfulText (str ''!?'')" by code_simp
  have 2: "hasMeaningfulText (str ''a!'')" by code_simp
  have 3: "length (str ''!?'') = 2" "length (str ''a!'') = 2" "length (str ''!'') = 1"
    by (simp_all add: str_def)
  show ?thesis
    using validateInput_meaningful[of "str ''!?''"] validateInput_meaningful[of "str ''a!''"]
      validateInput_meaningful[of "[]"] validateInput_meaningful[of "str ''!''"]
      validateInput_meaningful[of "replicate 501 0x21"] 1 2 3
    by simp
qed

text \<open>
  The claim as stated fails on the normalized input \<open>!\<close>: it has no meaningful character,
  and validation fails with \<open>TooShort\<close>, not with \<open>NoMeaningfulText\<close>.
\<close>

theorem validateInput_punctuation_too_short:
  "preprocessInput (str ''!'') = str ''!'' \<and> \<not> hasMeaningfulText (str ''!'') \<and>
   validateInput (str ''!'') = Invalid TooShort \<and>
   validateInput (str ''!'') \<noteq> Invalid NoMeaningfulText"
  by code_simp

subsection \<open>Validation runs on the normalized input\<close>

lemma length_trim_le: "length (trim s) \<le> length s"
proof -
  have "length (trim s) \<le> length (dropWhile isWhiteSpace s)"
    unfolding trim_def using length_dropWhile_le[of isWhiteSpace "rev (dropWhile isWhiteSpace s)"]
    by simp
  also have "\<dots> \<le> length s" by (rule length_dropWhile_le)
  finally show ?thesis .
qed

lemma length_replaceRuns_le: "length r \<le> 1 \<Longrightarrow> length (replaceRuns P r s) \<le> length s"
proof (induction P r s rule: replaceRuns.induct)
  case (1 P r)
  then show ?case by simp
next
  case (2 P r c cs)
  show ?case
  proof (cases "P c")
    case True
    with 2 have "length (replaceRuns P r (dropWhile P cs)) \<le> length (dropWhile P cs)" by simp
    also have "\<dots> \<le> length cs" by (rule length_dropWhile_le)
    finally show ?thesis using True 2(3) by simp
  next
    case False
    with 2 show ?thesis by simp
  qed
qed

lemma length_preprocessInput_le: "length (preprocessInput s) \<le> length s"
proof -
  have "length (preprocessInput s) \<le> length (trim s)"
    unfolding preprocessInput_eq by (rule length_replaceRuns_le) simp
  then show ?thesis using length_trim_le[of s] by linarith
qed

text \<open>
  Claim C10, amended. For every raw input that is not the empty string, the handler answers
  with the verdict of \<open>validateInput\<close> on the normalized input. So a raw input whose
  normalized form has one code unit is rejected as too short, one whose normalized form is
  empty is rejected as empty input, the normalized form is never longer than the raw input,
  and no input whose normalized form has at most 500 code units is rejected as too long.
\<close>

theorem POST_validate_normalized:
  assumes "input \<noteq> []"
  shows "POST_validate (Some (Some input)) =
           (case validateInput (preprocessInput input) of
              Invalid e \<Rightarrow> Inl (ValidationFailed e)
            | Valid \<Rightarrow> Inr (preprocessInput input)) \<and>
         (length (preprocessInput input) = 1 \<longrightarrow>
            POST_validate (Some (Some input)) = Inl (ValidationFailed TooShort)) \<and>
         (preprocessInput input = [] \<longrightarrow>
            POST_validate (Some (Some input)) = Inl (ValidationFailed EmptyInput)) \<and>
         length (preprocessInput input) \<le> length input \<and>
         (length (preprocessInput input) \<le> 500 \<longrightarrow>
            (\<forall>n. POST_validate (Some (Some input)) \<noteq> Inl (ValidationFailed (TooLong n))))"
  using assms length_preprocessInput_le[of input]
  by (auto simp: POST_validate_def Let_def validateInput_def INPUT_MIN_LENGTH_def
      INPUT_MAX_LENGTH_def split: validation.splits)

theorem POST_validate_normalized_witness:
  "str '' a '' \<noteq> [] \<and> length (str '' a '') \<ge> 2 \<and> length (preprocessInput (str '' a '')) = 1 \<and>
   POST_validate (Some (Some (str '' a ''))) = Inl (ValidationFailed TooShort) \<and>
   preprocessInput (str ''  '') = [] \<and>
   POST_validate (Some (Some (str ''  ''))) = Inl (ValidationFailed EmptyInput) \<and>
   length (replicate 300 0x20 @ str ''ab'' @ replicate 300 0x20) = 602 \<and>
   length (preprocessInput (replicate 300 0x20 @ str ''ab'' @ replicate 300 0x20)) \<le> 500 \<and>
   POST_validate (Some (Some (replicate 300 0x20 @ str ''ab'' @ replicate 300 0x20))) = Inr (str ''ab'')"
proof -
  have 1: "preprocessInput (str '' a '') = str ''a''" by code_simp
  have 2: "preprocessInput (str ''  '') = []" by code_simp
  have 3: "preprocessInput (replicate 300 0x20 @ str ''ab'' @ replicate 300 0x20) = str ''ab''"
    by code_simp
  have 4: "validateInput (str ''ab'') = Valid" by code_simp
  have 5: "str '' a '' \<noteq> []" "str ''  '' \<noteq> []" "length (str '' a '') = 3" "length (str ''a'') = 1"
    "length (str ''ab'') = 2"
    by (simp_all add: str_def)
  have 6: "replicate 300 0x20 @ str ''ab'' @ replicate 300 0x20 \<noteq> ([]::jsstring)" by simp
  have a: "POST_validate (Some (Some (str '' a ''))) = Inl (ValidationFailed TooShort)"
    using POST_validate_normalized[OF 5(1), THEN conjunct2, THEN conjunct1] 1 5 by simp
  have b: "POST_validate (Some (Some (str ''  ''))) = Inl (ValidationFailed EmptyInput)"
    using POST_validate_normalized[OF 5(2), THEN conjunct2, THEN conjunct2, THEN conjunct1] 2
    by simp
  have c: "POST_validate (Some (Some (replicate 300 0x20 @ str ''ab'' @ replicate 300 0x20))) =
      Inr (str ''ab'')"
    using POST_validate_normalized[OF 6, THEN conjunct1] 3 4 by simp
  show ?thesis using a b c 1 2 3 5 by simp
qed

text \<open>
  The claim as stated fails on the raw input of two spaces: it has length 2, its normalized
  form has fewer than 2 code units, and it is rejected as empty input, not as too short.
\<close>

theorem POST_validate_blank_input:
  "2 \<le> length (str ''  '') \<and> length (preprocessInput (str ''  '')) < 2 \<and>
   POST_validate (Some (Some (str ''  ''))) = Inl (ValidationFailed EmptyInput) \<and>
   POST_validate (Some (Some (str ''  ''))) \<noteq> Inl (ValidationFailed TooShort)"
  by code_simp

subsection \<open>The time pattern\<close>

lemma timeRegex_iff: "test_anchored timeRegex s \<longleftrightarrow> strictHHMM s \<or> oneDigitHourMM s"
proof (cases s)
  case Nil
  then show ?thesis by (simp add: test_anchored_def timeRegex_def)
next
  case c1: (Cons a s1)
  show ?thesis
  proof (cases s1)
    case Nil
    then show ?thesis using c1 by (simp add: test_anchored_def timeRegex_def)
  next
    case c2: (Cons b s2)
    show ?thesis
    proof (cases s2)
      case Nil
      then show ?thesis using c1 c2 by (simp add: test_anchored_def timeRegex_def)
    next
      case c3: (Cons c s3)
      show ?thesis
      proof (cases s3)
        case Nil
        then show ?thesis using c1 c2 c3 by (simp add: test_anchored_def timeRegex_def)
      next
        case c4: (Cons d s4)
        show ?thesis
        proof (cases s4)
          case Nil
          then show ?thesis using c1 c2 c3 c4
            by (auto simp add: test_anchored_def timeRegex_def isDigit_def)
        next
          case c5: (Cons e s5)
          show ?thesis
          proof (cases s5)
            case Nil
            then show ?thesis using c1 c2 c3 c4 c5
              by (auto simp add: test_anchored_def timeRegex_def isDigit_def)
          next
            case c6: (Cons f s6)
            then show ?thesis using c1 c2 c3 c4 c5
              by (auto simp add: test_anchored_def timeRegex_def isDigit_def)
          qed
        qed
      qed
    qed
  qed
qed


lemma POST_postprocess_time:
  assumes "parse (due_date r) = Some d"
  shows "map_sum id due_time (POST_postprocess parse dates now r) =
           Inr (if test_anchored timeRegex (due_time r) then due_time r else str ''09:00'')"
  using assms by (simp add: POST_postprocess_def Let_def)

text \<open>
  Claim C2, amended. When the extracted date parses, the post-processor returns a result
  whose \<open>due_time\<close> is the extracted one if it is \<open>HH:MM\<close> or \<open>H:MM\<close> with an hour from 0
  to 23 (the leading zero of the hour is optional) and a minute from 00 to 59, and is
  \<open>09:00\<close> otherwise.
\<close>

theorem POST_postprocess_due_time:
  assumes "parse (due_date r) = Some d"
  shows "\<exists>r'. POST_postprocess parse dates now r = Inr r' \<and>
           due_time r' = (if strictHHMM (due_time r) \<or> oneDigitHourMM (due_time r)
                          then due_time r else str ''09:00'')"
  using assms by (simp add: POST_postprocess_def Let_def timeRegex_iff)

theorem POST_postprocess_due_time_witness:
  "[str ''2024-06-11'' \<mapsto> (1718064000000::int)]
     (due_date (sampleParsed\<lparr>due_time := str ''25:00''\<rparr>)) = Some 1718064000000 \<and>
   map_sum id due_time (POST_postprocess [str ''2024-06-11'' \<mapsto> 1718064000000] dates0 1718000000000
     (sampleParsed\<lparr>due_time := str ''25:00''\<rparr>)) = Inr (str ''09:00'') \<and>
   map_sum id due_time (POST_postprocess [str ''2024-06-11'' \<mapsto> 1718064000000] dates0 1718000000000
     (sampleParsed\<lparr>due_time := []\<rparr>)) = Inr (str ''09:00'') \<and>
   map_sum id due_time (POST_postprocess [str ''2024-06-11'' \<mapsto> 1718064000000] dates0 1718000000000
     sampleParsed) = Inr (str ''15:00'')"
proof -
  let ?p = "[str ''2024-06-11'' \<mapsto> (1718064000000::int)]"
  have p: "?p (due_date (sampleParsed\<lparr>due_time := t\<rparr>)) = Some 1718064000000" for t
    by (simp add: sampleParsed_def)
  have p0: "?p (due_date sampleParsed) = Some 1718064000000"
    by (simp add: sampleParsed_def)
  have 1: "\<not> strictHHMM (str ''25:00'')" "\<not> oneDigitHourMM (str ''25:00'')"
    "\<not> strictHHMM []" "\<not> oneDigitHourMM []" "strictHHMM (str ''15:00'')"
    by (simp_all add: str_def isDigit_def)
  have t: "due_time (sampleParsed\<lparr>due_time := t\<rparr>) = t" "due_time sampleParsed = str ''15:00''" for t
    by (simp_all add: sampleParsed_def)
  from POST_postprocess_due_time[where parse = "?p" and d = 1718064000000 and dates = dates0
      and now = 1718000000000 and r = "sampleParsed\<lparr>due_time := str ''25:00''\<rparr>"] p
  have a: "map_sum id due_time (POST_postprocess ?p dates0 1718000000000
      (sampleParsed\<lparr>due_time := str ''25:00''\<rparr>)) = Inr (str ''09:00'')"
    using 1 t by auto
  from POST_postprocess_due_time[where parse = "?p" and d = 1718064000000 and dates = dates0
      and now = 1718000000000 and r = "sampleParsed\<lparr>due_time := []\<rparr>"] p
  have b: "map_sum id due_time (POST_postprocess ?p dates0 1718000000000
      (sampleParsed\<lparr>due_time := []\<rparr>)) = Inr (str ''09:00'')"
    using 1 t by auto
  from POST_postprocess_due_time[where parse = "?p" and d = 1718064000000 and dates = dates0
      and now = 1718000000000 and r = sampleParsed] p0
  have c: "map_sum id due_time (POST_postprocess ?p dates0 1718000000000 sampleParsed) =
      Inr (str ''15:00'')"
    using 1 t by auto
  show ?thesis using a b c p[of "str ''25:00''"] by blast
qed

text \<open>
  The claim as stated fails on \<open>9:00\<close>: it is not strict \<open>HH:MM\<close>, and the post-processor
  keeps it instead of replacing it with \<open>09:00\<close>.
\<close>

theorem POST_postprocess_keeps_single_digit_hour:
  "\<not> strictHHMM (str ''9:00'') \<and>
   map_sum id due_time (POST_postprocess [str ''2024-06-11'' \<mapsto> 1718064000000] dates0 1718000000000
     (sampleParsed\<lparr>due_time := str ''9:00''\<rparr>)) = Inr (str ''9:00'') \<and>
   str ''9:00'' \<noteq> str ''09:00''"
proof -
  have p: "[str ''2024-06-11'' \<mapsto> (1718064000000::int)]
      (due_date (sampleParsed\<lparr>due_time := str ''9:00''\<rparr>)) = Some 1718064000000"
    by (simp add: sampleParsed_def)
  have 1: "test_anchored timeRegex (str ''9:00'')" by code_simp
  have 2: "\<not> strictHHMM (str ''9:00'')" "str ''9:00'' \<noteq> str ''09:00''"
    by (simp_all add: str_def)
  show ?thesis
    using POST_postprocess_time[where parse = "[str ''2024-06-11'' \<mapsto> (1718064000000::int)]" and d = 1718064000000
        and dates = dates0 and now = 1718000000000
        and r = "sampleParsed\<lparr>due_time := str ''9:00''\<rparr>"] p 1 2
    by (simp add: sampleParsed_def)
qed


subsection \<open>The calendar\<close>

lemma MonthFromDay_range: "0 \<le> MonthFromDay n \<and> MonthFromDay n \<le> 11"
  by (simp add: MonthFromDay_def Let_def)

lemma MakeDay_fields:
  "MakeDay (YearFromDay n) (MonthFromDay n) (DateFromDay n + k) = n + k"
proof -
  have "MonthFromDay n div 12 = 0" "MonthFromDay n mod 12 = MonthFromDay n"
    using MonthFromDay_range[of n] by simp_all
  then show ?thesis by (simp add: MakeDay_def DateFromDay_def Let_def)
qed

lemma Day_MakeDate: "0 \<le> tm \<Longrightarrow> tm < msPerDay \<Longrightarrow> Day (MakeDate d tm) = d"
  by (simp add: Day_def MakeDate_def msPerDay_def div_pos_pos_trivial)

lemma TimeWithinDay_range: "0 \<le> TimeWithinDay t \<and> TimeWithinDay t < msPerDay"
  by (simp add: TimeWithinDay_def msPerDay_def)

lemma Day_TimeWithinDay: "t = Day t * msPerDay + TimeWithinDay t"
  by (simp add: Day_def TimeWithinDay_def)

lemma setDate_getDate: "setDate t (getDate t + k) = t + k * msPerDay"
proof -
  have "setDate t (getDate t + k) = (Day t + k) * msPerDay + TimeWithinDay t"
    by (simp add: setDate_def getDate_def getFullYear_def getMonth_def MakeDay_fields MakeDate_def)
  also have "\<dots> = t + k * msPerDay"
    using Day_TimeWithinDay[of t] by (simp add: algebra_simps)
  finally show ?thesis .
qed

lemma Day_add_days: "Day (t + k * msPerDay) = Day t + k"
  by (simp add: Day_def msPerDay_def)

lemma getDay_add_days: "getDay (t + k * msPerDay) = (getDay t + k) mod 7"
  unfolding getDay_def Day_add_days by (simp add: mod_simps ac_simps)

lemma getDay_range: "0 \<le> getDay t \<and> getDay t < 7"
  by (simp add: getDay_def)

lemma div_lower:
  fixes x k :: int
  assumes "0 < k"
  shows "k * (x div k) \<le> x"
  using assms mult_div_mod_eq[of k x] pos_mod_sign[of k x] by linarith

lemma div_upper:
  fixes x k :: int
  assumes "0 < k"
  shows "x < k * (x div k) + k"
  using assms mult_div_mod_eq[of k x] pos_mod_bound[of k x] by linarith

lemma DayFromYear_upper: "400 * DayFromYear z \<le> 146097 * (z - 1970) + 589"
proof -
  have a: "4 * ((z - 1969) div 4) \<le> z - 1969" by (rule div_lower) simp
  have b: "z - 1901 < 100 * ((z - 1901) div 100) + 100" by (rule div_upper) simp
  have c: "400 * ((z - 1601) div 400) \<le> z - 1601" by (rule div_lower) simp
  from a b c show ?thesis unfolding DayFromYear_def by (simp add: algebra_simps)
qed

lemma DayFromYear_lower: "146097 * (z - 1970) - 506 \<le> 400 * DayFromYear z"
proof -
  have a: "z - 1969 < 4 * ((z - 1969) div 4) + 4" by (rule div_upper) simp
  have b: "100 * ((z - 1901) div 100) \<le> z - 1901" by (rule div_lower) simp
  have c: "z - 1601 < 400 * ((z - 1601) div 400) + 400" by (rule div_upper) simp
  from a b c show ?thesis unfolding DayFromYear_def by (simp add: algebra_simps)
qed

lemma DayFromYear_mono: "y \<le> z \<Longrightarrow> DayFromYear y \<le> DayFromYear z"
  using DayFromYear_upper[of y] DayFromYear_lower[of z]
  by (cases "y = z") (simp_all add: algebra_simps)

lemma YearFromDay_bounds:
  "DayFromYear (YearFromDay n) \<le> n \<and> n < DayFromYear (YearFromDay n + 1)"
proof -
  define y where "y = 1970 + (400 * n) div 146097"
  have "146097 * ((400 * n) div 146097) \<le> 400 * n" by (rule div_lower) simp
  then have e1: "146097 * (y - 1970) \<le> 400 * n" by (simp add: y_def)
  have "400 * n < 146097 * ((400 * n) div 146097) + 146097" by (rule div_upper) simp
  then have e2: "400 * n < 146097 * (y - 1970) + 146097" by (simp add: y_def)
  have lo: "DayFromYear (y - 1) \<le> n"
    using DayFromYear_upper[of "y - 1"] e1 by (simp add: algebra_simps)
  have hi: "n < DayFromYear (y + 2)"
    using DayFromYear_lower[of "y + 2"] e2 by (simp add: algebra_simps)
  have "YearFromDay n =
      (if DayFromYear (y + 1) \<le> n then y + 1 else if DayFromYear y \<le> n then y else y - 1)"
    by (simp add: YearFromDay_def y_def Let_def)
  then show ?thesis using lo hi by (auto simp: add.commute)
qed

lemma YearFromDay_ge: "DayFromYear y \<le> n \<Longrightarrow> y \<le> YearFromDay n"
proof (rule ccontr)
  assume a: "DayFromYear y \<le> n" and "\<not> y \<le> YearFromDay n"
  then have "YearFromDay n + 1 \<le> y" by simp
  then have "DayFromYear (YearFromDay n + 1) \<le> DayFromYear y" by (rule DayFromYear_mono)
  with a YearFromDay_bounds[of n] show False by linarith
qed

lemma newDate_fields:
  assumes "100 \<le> getFullYear t \<or> getFullYear t < 0"
  shows "newDate (getFullYear t) (getMonth t) (getDate t) = Day t * msPerDay"
proof -
  have "MakeDay (getFullYear t) (getMonth t) (getDate t) = Day t"
    using MakeDay_fields[of "Day t" 0] by (simp add: getFullYear_def getMonth_def getDate_def)
  with assms show ?thesis by (auto simp: newDate_def MakeDate_def)
qed

lemma getFullYear_ge_1970: "0 \<le> t \<Longrightarrow> 1970 \<le> getFullYear t"
proof -
  assume "0 \<le> t"
  then have "0 \<le> Day t" by (simp add: Day_def msPerDay_def)
  moreover have "DayFromYear 1970 = 0" by (simp add: DayFromYear_def)
  ultimately show ?thesis unfolding getFullYear_def by (intro YearFromDay_ge) simp
qed

lemma getFullYear_ge_2000: "946684800000 \<le> t \<Longrightarrow> 2000 \<le> getFullYear t"
proof -
  assume "946684800000 \<le> t"
  then have "10957 \<le> Day t" by (simp add: Day_def msPerDay_def)
  moreover have "DayFromYear 2000 = 10957" by (simp add: DayFromYear_def)
  ultimately show ?thesis unfolding getFullYear_def by (intro YearFromDay_ge) simp
qed

subsection \<open>The weekday anchors\<close>

lemma getCurrentWeekDay_eq:
  "getCurrentWeekDay base targetDay =
     base + (if targetDay - getDay base \<ge> 0 then targetDay - getDay base
             else 7 + (targetDay - getDay base)) * msPerDay"
  by (simp add: getCurrentWeekDay_def Let_def setDate_getDate)

text \<open>
  Claim C9. For every date \<open>base\<close> (in the source, today at local midnight) and every weekday
  number from 0 to 6, the offset that \<open>getCurrentWeekDay\<close> adds - the difference of the
  weekday numbers when it is not negative, 7 plus the difference otherwise - is from 0 to 6
  days. The anchor is \<open>base\<close> moved by that many days, it falls on the requested weekday,
  it is not before \<open>base\<close> and it is less than 7 days after it.
\<close>

theorem getCurrentWeekDay_window:
  assumes "0 \<le> targetDay" and "targetDay \<le> 6"
  shows "\<exists>k. k = (if targetDay - getDay base \<ge> 0 then targetDay - getDay base
                 else 7 + (targetDay - getDay base)) \<and>
           0 \<le> k \<and> k \<le> 6 \<and>
           getCurrentWeekDay base targetDay = base + k * msPerDay \<and>
           getDay (getCurrentWeekDay base targetDay) = targetDay \<and>
           base \<le> getCurrentWeekDay base targetDay \<and>
           getCurrentWeekDay base targetDay < base + 7 * msPerDay"
proof -
  define k where "k = (if targetDay - getDay base \<ge> 0 then targetDay - getDay base
                       else 7 + (targetDay - getDay base))"
  have r: "getCurrentWeekDay base targetDay = base + k * msPerDay"
    by (simp add: getCurrentWeekDay_eq k_def)
  have k: "0 \<le> k" "k \<le> 6"
    using assms getDay_range[of base] by (auto simp: k_def)
  have "(getDay base + k) mod 7 = targetDay"
    using assms getDay_range[of base] by (auto simp: k_def)
  then have g: "getDay (getCurrentWeekDay base targetDay) = targetDay"
    by (simp add: r getDay_add_days)
  have "0 \<le> k * msPerDay" "k * msPerDay < 7 * msPerDay"
    using k by (simp_all add: msPerDay_def)
  then show ?thesis using r k g k_def by auto
qed

theorem getCurrentWeekDay_window_witness:
  "(0::int) \<le> 0 \<and> (0::int) \<le> 6 \<and> (0::int) \<le> 3 \<and> (3::int) \<le> 6 \<and>
   getDay 1717977600000 = 1 \<and>
   getCurrentWeekDay 1717977600000 0 = 1717977600000 + 6 * msPerDay \<and>
   getDay (getCurrentWeekDay 1717977600000 0) = 0 \<and>
   1717977600000 \<le> getCurrentWeekDay 1717977600000 0 \<and>
   getCurrentWeekDay 1717977600000 0 < 1717977600000 + 7 * msPerDay \<and>
   getCurrentWeekDay 1717977600000 3 = 1717977600000 + 2 * msPerDay \<and>
   getDay (getCurrentWeekDay 1717977600000 3) = 3"
proof -
  have g: "getDay 1717977600000 = 1" by (simp add: getDay_def Day_def msPerDay_def)
  show ?thesis
    using getCurrentWeekDay_window[of 0 1717977600000] getCurrentWeekDay_window[of 3 1717977600000] g
    by (simp add: getDay_def Day_def msPerDay_def)
qed

subsection \<open>Past dates and the window of the week\<close>

lemma monthStart_diff: "monthStart a m \<le> monthStart b m + 1"
  by (simp add: monthStart_def Let_def)

lemma dayWithinYear_le: "n - DayFromYear (YearFromDay n) \<le> 366"
proof -
  have "n < DayFromYear (YearFromDay n + 1)" using YearFromDay_bounds[of n] by simp
  moreover have "DayFromYear (YearFromDay n + 1) \<le> DayFromYear (YearFromDay n) + 367"
    using DayFromYear_upper[of "YearFromDay n + 1"] DayFromYear_lower[of "YearFromDay n"]
    by (simp add: algebra_simps)
  ultimately show ?thesis by linarith
qed

lemma two_digit_year_before_2000:
  assumes "0 \<le> YearFromDay n" "YearFromDay n \<le> 99"
  shows "MakeDay (1900 + YearFromDay n) (MonthFromDay n) (DateFromDay n) < 10957 \<and> n < 10957"
proof -
  define y where "y = YearFromDay n"
  define m where "m = MonthFromDay n"
  have m: "MonthFromDay n div 12 = 0" "MonthFromDay n mod 12 = MonthFromDay n"
    using MonthFromDay_range[of n] by simp_all
  have mk: "MakeDay (1900 + y) m (DateFromDay n) =
      DayFromYear (1900 + y) + monthStart (InLeapYear (1900 + y)) m
        - monthStart (InLeapYear y) m + (n - DayFromYear y)"
    by (simp add: MakeDay_def DateFromDay_def Let_def m y_def m_def)
  have n100: "n < DayFromYear 100"
  proof -
    have "n < DayFromYear (y + 1)" using YearFromDay_bounds[of n] by (simp add: y_def)
    moreover have "DayFromYear (y + 1) \<le> DayFromYear 100"
      using assms by (intro DayFromYear_mono) (simp add: y_def)
    ultimately show ?thesis by linarith
  qed
  have d100: "DayFromYear 100 < 10957" by (simp add: DayFromYear_def)
  have "MakeDay (1900 + y) m (DateFromDay n) < 10957"
  proof (cases "y = 99")
    case True
    have "n < DayFromYear 100" by (rule n100)
    moreover have "DayFromYear 100 = DayFromYear 99 + 365" by (simp add: DayFromYear_def)
    moreover have "DayFromYear 1999 = 10592" by (simp add: DayFromYear_def)
    moreover have "\<not> InLeapYear 1999" "\<not> InLeapYear 99" by (simp_all add: InLeapYear_def)
    ultimately show ?thesis using mk True by simp
  next
    case False
    with assms have "1900 + y \<le> 1998" by (simp add: y_def)
    then have "DayFromYear (1900 + y) \<le> DayFromYear 1998" by (rule DayFromYear_mono)
    moreover have "DayFromYear 1998 = 10227" by (simp add: DayFromYear_def)
    moreover have "n - DayFromYear y \<le> 366" using dayWithinYear_le[of n] by (simp add: y_def)
    moreover note monthStart_diff[of "InLeapYear (1900 + y)" m "InLeapYear y"]
    ultimately show ?thesis using mk by linarith
  qed
  then show ?thesis using n100 d100 by (simp add: y_def m_def)
qed

lemma dateOnly_less_iff:
  assumes "946684800000 \<le> now"
  shows "newDate (getFullYear d) (getMonth d) (getDate d)
           < newDate (getFullYear now) (getMonth now) (getDate now)
         \<longleftrightarrow> Day d < Day now"
proof -
  have y: "2000 \<le> getFullYear now" using assms by (rule getFullYear_ge_2000)
  then have b: "newDate (getFullYear now) (getMonth now) (getDate now) = Day now * msPerDay"
    by (intro newDate_fields) simp
  have dn: "10957 \<le> Day now" using assms by (simp add: Day_def msPerDay_def)
  show ?thesis
  proof (cases "0 \<le> getFullYear d \<and> getFullYear d \<le> 99")
    case False
    then have "newDate (getFullYear d) (getMonth d) (getDate d) = Day d * msPerDay"
      by (intro newDate_fields) auto
    with b show ?thesis by (simp add: msPerDay_def)
  next
    case True
    then have "MakeDay (1900 + getFullYear d) (getMonth d) (getDate d) < 10957 \<and> Day d < 10957"
      using two_digit_year_before_2000[of "Day d"]
      by (simp add: getFullYear_def getMonth_def getDate_def)
    moreover have "newDate (getFullYear d) (getMonth d) (getDate d) =
        MakeDay (1900 + getFullYear d) (getMonth d) (getDate d) * msPerDay"
      using True by (simp add: newDate_def MakeDate_def)
    ultimately show ?thesis using b dn by (simp add: msPerDay_def)
  qed
qed

lemma today_getDateHelpers:
  assumes "0 \<le> now"
  shows "today (getDateHelpers now) = formatDate (MakeDate (Day now) 0)"
proof -
  have "100 \<le> getFullYear now \<or> getFullYear now < 0"
    using getFullYear_ge_1970[OF assms] by simp
  then have "newDate (getFullYear now) (getMonth now) (getDate now) = Day now * msPerDay"
    by (rule newDate_fields)
  then show ?thesis by (simp add: getDateHelpers_def Let_def MakeDate_def)
qed

text \<open>
  Claim C1. Let the handler read the clock at \<open>now\<close>, not before the year 2000, and let the
  extracted \<open>due_date\<close> parse to the instant \<open>d\<close>. If the calendar day of \<open>d\<close> is before
  the calendar day of \<open>now\<close>, the post-processor overwrites \<open>due_date\<close> with \<open>today\<close> of
  the date table, which is the formatted calendar day of \<open>now\<close>; otherwise \<open>due_date\<close> is
  left as it is. A \<open>due_time\<close> that the time pattern accepts is left as it is in both cases.
\<close>

theorem POST_postprocess_past_date:
  assumes "parse (due_date r) = Some d" and "946684800000 \<le> now"
  shows "\<exists>r'. POST_postprocess parse (getDateHelpers now) now r = Inr r' \<and>
           (Day d < Day now \<longrightarrow> due_date r' = today (getDateHelpers now)) \<and>
           (Day now \<le> Day d \<longrightarrow> due_date r' = due_date r) \<and>
           (strictHHMM (due_time r) \<or> oneDigitHourMM (due_time r) \<longrightarrow> due_time r' = due_time r) \<and>
           today (getDateHelpers now) = formatDate (MakeDate (Day now) 0)"
proof -
  have "0 \<le> now" using assms(2) by simp
  then have t: "today (getDateHelpers now) = formatDate (MakeDate (Day now) 0)"
    by (rule today_getDateHelpers)
  show ?thesis
    using assms(1) t
    by (auto simp: POST_postprocess_def Let_def dateOnly_less_iff[OF assms(2)] timeRegex_iff)
qed

theorem POST_postprocess_past_date_witness:
  "[str ''2024-06-09'' \<mapsto> (1717891200000::int)]
     (due_date (sampleParsed\<lparr>due_date := str ''2024-06-09''\<rparr>)) = Some 1717891200000 \<and>
   (946684800000::int) \<le> 1718000000000 \<and> Day 1717891200000 < Day 1718000000000 \<and>
   strictHHMM (due_time (sampleParsed\<lparr>due_date := str ''2024-06-09''\<rparr>)) \<and>
   map_sum id (\<lambda>r'. (due_date r', due_time r'))
     (POST_postprocess [str ''2024-06-09'' \<mapsto> 1717891200000] (getDateHelpers 1718000000000)
        1718000000000 (sampleParsed\<lparr>due_date := str ''2024-06-09''\<rparr>)) =
     Inr (str ''2024-06-10'', str ''15:00'') \<and>
   [str ''2024-06-11'' \<mapsto> (1718064000000::int)] (due_date sampleParsed) = Some 1718064000000 \<and>
   Day 1718000000000 \<le> Day 1718064000000 \<and>
   map_sum id (\<lambda>r'. (due_date r', due_time r'))
     (POST_postprocess [str ''2024-06-11'' \<mapsto> 1718064000000] (getDateHelpers 1718000000000)
        1718000000000 sampleParsed) =
     Inr (str ''2024-06-11'', str ''15:00'')"
proof -
  let ?p = "[str ''2024-06-09'' \<mapsto> (1717891200000::int)]"
  let ?r = "sampleParsed\<lparr>due_date := str ''2024-06-09''\<rparr>"
  let ?q = "[str ''2024-06-11'' \<mapsto> (1718064000000::int)]"
  have p: "?p (due_date ?r) = Some 1717891200000" by (simp add: sampleParsed_def)
  have q: "?q (due_date sampleParsed) = Some 1718064000000" by (simp add: sampleParsed_def)
  have n: "(946684800000::int) \<le> 1718000000000" by simp
  have d: "Day 1717891200000 < Day 1718000000000" "Day 1718000000000 \<le> Day 1718064000000"
    by (simp_all add: Day_def msPerDay_def)
  have s: "strictHHMM (due_time ?r)" "strictHHMM (due_time sampleParsed)"
    by (simp_all add: sampleParsed_def str_def isDigit_def)
  have t: "due_time ?r = str ''15:00''" "due_time sampleParsed = str ''15:00''"
    "due_date sampleParsed = str ''2024-06-11''"
    by (simp_all add: sampleParsed_def)
  have f: "formatDate (MakeDate (Day 1718000000000) 0) = str ''2024-06-10''" by code_simp
  from POST_postprocess_past_date[where parse = "?p" and r = "?r" and d = 1717891200000
      and now = 1718000000000] p n d s t f
  have a: "map_sum id (\<lambda>r'. (due_date r', due_time r'))
     (POST_postprocess ?p (getDateHelpers 1718000000000) 1718000000000 ?r) =
     Inr (str ''2024-06-10'', str ''15:00'')"
    by auto
  from POST_postprocess_past_date[where parse = "?q" and r = sampleParsed and d = 1718064000000
      and now = 1718000000000] q n d s t
  have b: "map_sum id (\<lambda>r'. (due_date r', due_time r'))
     (POST_postprocess ?q (getDateHelpers 1718000000000) 1718000000000 sampleParsed) =
     Inr (str ''2024-06-11'', str ''15:00'')"
    by auto
  show ?thesis using a b p q n d s by blast
qed

lemma setDate_getDate_minus: "setDate t (getDate t - k) = t - k * msPerDay"
  using setDate_getDate[of t "- k"] by simp

lemma Day_sub_days: "Day (t - k * msPerDay) = Day t - k"
  using Day_add_days[of t "- k"] by simp

lemma Day_six: "Day (t + 6 * msPerDay) = Day t + 6"
  by (rule Day_add_days)

lemma MakeTime_zero: "MakeTime 0 0 0 0 = 0"
  by (simp add: MakeTime_def)

lemma Day_mult: "Day (k * msPerDay) = k"
  by (simp add: Day_def msPerDay_def)

lemma setHours_eq: "setHours t h m s ms = Day t * msPerDay + MakeTime h m s ms"
  by (simp add: setHours_def MakeDate_def)

text \<open>
  Claim C6. For every reading \<open>now\<close> of the clock that is not before 1970, the window of
  the week starts on a Monday at 00:00:00.000 and ends on a Sunday at 23:59:59.999. It starts
  6 days before the day of \<open>now\<close> when that day is a Sunday and \<open>1 - getDay now\<close> days from
  it otherwise; it ends on the sixth day after its first day, so it spans 7 calendar days,
  and it contains \<open>now\<close>.
\<close>

theorem getDateRange_week:
  assumes "0 \<le> now"
  shows "getDay (range_start (getDateRange Week now)) = 1 \<and>
         TimeWithinDay (range_start (getDateRange Week now)) = 0 \<and>
         getDay (range_end (getDateRange Week now)) = 0 \<and>
         TimeWithinDay (range_end (getDateRange Week now)) = MakeTime 23 59 59 999 \<and>
         Day (range_start (getDateRange Week now)) =
           Day now + (if getDay now = 0 then - 6 else 1 - getDay now) \<and>
         Day (range_end (getDateRange Week now)) = Day (range_start (getDateRange Week now)) + 6 \<and>
         range_start (getDateRange Week now) \<le> now \<and>
         now \<le> range_end (getDateRange Week now)"
proof -
  define diff where "diff = (if getDay now = 0 then - 6 else 1 - getDay now)"
  have "100 \<le> getFullYear now \<or> getFullYear now < 0"
    using getFullYear_ge_1970[OF assms] by simp
  then have b: "newDate (getFullYear now) (getMonth now) (getDate now) = Day now * msPerDay"
    by (rule newDate_fields)
  have db: "Day (Day now * msPerDay) = Day now" by (simp add: Day_def msPerDay_def)
  have gb: "getDay (Day now * msPerDay) = getDay now" by (simp add: getDay_def db)
  have dws: "Day ((Day now + diff) * msPerDay) = Day now + diff" by (simp add: Day_def msPerDay_def)
  have s: "range_start (getDateRange Week now) = (Day now + diff) * msPerDay"
    by (simp add: getDateRange_def Let_def b gb setDate_getDate setDate_getDate_minus setHours_eq
        Day_add_days Day_sub_days db MakeTime_def diff_def)
  have e: "range_end (getDateRange Week now) = (Day now + diff + 6) * msPerDay + MakeTime 23 59 59 999"
    by (simp add: getDateRange_def Let_def b gb setDate_getDate setDate_getDate_minus setHours_eq
        Day_add_days Day_sub_days db diff_def Day_six MakeTime_zero Day_mult)
  have g: "0 \<le> getDay now" "getDay now < 7" using getDay_range[of now] by simp_all
  have d: "- 6 \<le> diff" "diff \<le> 0" using g by (auto simp: diff_def)
  have gs: "(getDay now + diff) mod 7 = 1" using g by (auto simp: diff_def)
  have gs': "(Day now + diff + 4) mod 7 = 1"
    using gs unfolding getDay_def by presburger
  have 1: "getDay ((Day now + diff) * msPerDay) = 1"
    using gs' by (simp only: getDay_def dws)
  have ge: "(Day now + diff + 6 + 4) mod 7 = 0"
    using gs' by presburger
  have t: "0 \<le> MakeTime 23 59 59 999" "MakeTime 23 59 59 999 < msPerDay"
    by (simp_all add: MakeTime_def msPerDay_def)
  have de: "Day ((Day now + diff + 6) * msPerDay + MakeTime 23 59 59 999) = Day now + diff + 6"
    using Day_MakeDate[OF t, of "Day now + diff + 6"] by (simp add: MakeDate_def)
  have te: "TimeWithinDay ((Day now + diff + 6) * msPerDay + MakeTime 23 59 59 999)
      = MakeTime 23 59 59 999"
    using t by (simp add: TimeWithinDay_def)
  have 3: "getDay ((Day now + diff + 6) * msPerDay + MakeTime 23 59 59 999) = 0"
    using ge by (simp add: getDay_def de)
  have n: "Day now * msPerDay \<le> now" "now < Day now * msPerDay + msPerDay"
    using Day_TimeWithinDay[of now] TimeWithinDay_range[of now] by linarith+
  have lo: "(Day now + diff) * msPerDay \<le> now"
  proof -
    have "diff * msPerDay \<le> 0" using d by (simp add: msPerDay_def)
    then show ?thesis using n by (simp add: algebra_simps)
  qed
  have hi: "now \<le> (Day now + diff + 6) * msPerDay + MakeTime 23 59 59 999"
  proof -
    have "0 \<le> (diff + 6) * msPerDay" using d by (simp add: msPerDay_def)
    moreover have "msPerDay = MakeTime 23 59 59 999 + 1" by (simp add: MakeTime_def msPerDay_def)
    ultimately show ?thesis using n by (simp add: algebra_simps)
  qed
  have 2: "TimeWithinDay ((Day now + diff) * msPerDay) = 0"
    by (simp add: TimeWithinDay_def)
  have 5: "Day ((Day now + diff) * msPerDay) =
      Day now + (if getDay now = 0 then - 6 else 1 - getDay now)"
    using dws unfolding diff_def .
  have 6: "Day ((Day now + diff + 6) * msPerDay + MakeTime 23 59 59 999) =
      Day ((Day now + diff) * msPerDay) + 6"
    by (simp only: de dws)
  show ?thesis unfolding s e by (intro conjI 1 2 3 te 5 6 lo hi)
qed

theorem getDateRange_week_witness:
  "(0::int) \<le> 1718550000000 \<and> getDay 1718550000000 = 0 \<and>
   getDateRange Week 1718550000000 =
     \<lparr> range_start = 1717977600000, range_end = 1718582399999 \<rparr> \<and>
   getDay 1717977600000 = 1 \<and> getDay 1718582399999 = 0 \<and>
   Day 1717977600000 = Day 1718550000000 - 6 \<and>
   Day 1718582399999 = Day 1717977600000 + 6 \<and>
   (1717977600000::int) \<le> 1718550000000 \<and> (1718550000000::int) \<le> 1718582399999"
proof -
  have r: "getDateRange Week 1718550000000 =
     \<lparr> range_start = 1717977600000, range_end = 1718582399999 \<rparr>"
    by code_simp
  have g: "getDay 1718550000000 = 0" by (simp add: getDay_def Day_def msPerDay_def)
  show ?thesis
    using getDateRange_week[of 1718550000000] r g by simp
qed


subsection \<open>The analysis handler\<close>

lemma POST_analyze_no_rows:
  assumes "user e" and "\<not> todosError e" and "todos e = None \<or> todos e = Some []"
  shows "POST_analyze e (Some (Some period)) = (Inr (Built cannedNoTodos), [])"
  using assms by (auto simp: POST_analyze_def Let_def)

lemma POST_analyze_none_in_period:
  assumes "user e" and "\<not> todosError e" and "todos e = Some rows" and "rows \<noteq> []"
    and "\<forall>t \<in> set rows. \<not> inRange (newDateOfString e) (getDateRange period (rangeClock e)) t"
  shows "POST_analyze e (Some (Some period)) = (Inr (Built (cannedNoneInPeriod period)), [])"
proof -
  have "filter (inRange (newDateOfString e) (getDateRange period (rangeClock e))) rows = []"
    using assms(5) by (simp add: filter_empty_conv)
  then show ?thesis using assms(1-4) by (simp add: POST_analyze_def Let_def)
qed

text \<open>
  Claim C4. For a request with a valid period, from a signed-in user, whose query succeeded:
  when the query returned no rows, the handler answers with the canned result that says no
  task is registered; when it returned rows of which none is due inside the window of the
  period, it answers with the canned result that says nothing is scheduled for the period.
  Both are success responses with no urgent task and one static insight and recommendation,
  and in both cases no prompt is sent to the generation service.
\<close>

theorem POST_analyze_canned:
  assumes "user e" and "\<not> todosError e"
  shows "(todos e = None \<or> todos e = Some [] \<longrightarrow>
            POST_analyze e (Some (Some period)) = (Inr (Built cannedNoTodos), [])) \<and>
         (\<forall>rows. todos e = Some rows \<and> rows \<noteq> [] \<and>
            (\<forall>t \<in> set rows.
               \<not> inRange (newDateOfString e) (getDateRange period (rangeClock e)) t) \<longrightarrow>
            POST_analyze e (Some (Some period)) = (Inr (Built (cannedNoneInPeriod period)), [])) \<and>
         summary cannedNoTodos = msgNoTodos \<and> urgentTasks cannedNoTodos = [] \<and>
         insights cannedNoTodos = [msgAddTodo] \<and>
         recommendations cannedNoTodos = [msgManageTodos] \<and>
         summary (cannedNoneInPeriod period) = periodText period @ msgNothingScheduled \<and>
         urgentTasks (cannedNoneInPeriod period) = [] \<and>
         insights (cannedNoneInPeriod period) = [periodText period @ msgScheduleEmpty] \<and>
         recommendations (cannedNoneInPeriod period) = [msgPlanTodo]"
  using POST_analyze_no_rows[OF assms, of period] POST_analyze_none_in_period[OF assms, of _ period]
  by (auto simp: cannedNoTodos_def cannedNoneInPeriod_def)

text \<open>
  Claim C3, amended. Once some row is due inside the window, the API key is configured and
  the generation service has returned a text, a text that \<open>JSON.parse\<close> rejects (after the
  code fences are removed) gives a success response built from the counts: its summary is
  the period text with the total count, the completed count and the completion rate in it,
  its urgent tasks are the titles of the first five, at most, of the rows that are not
  completed and of high priority, in the order of the rows, and it has two insights and two
  recommendations.
\<close>

theorem POST_analyze_fallback:
  assumes "user e" and "\<not> todosError e" and "todos e = Some rows"
    and "filtered = filter (inRange (newDateOfString e) (getDateRange period (rangeClock e))) rows"
    and "filtered \<noteq> []" and "hasApiKey e"
    and "generateText e
           (buildPrompt e period (getDateRange period (rangeClock e)) (statsClock e) filtered) =
         Inr text"
    and "JSON_parse e (removeAll fence (removeAll fenceJson (trim text))) = None"
  shows "\<exists>res. fst (POST_analyze e (Some (Some period))) = Inr (Built res) \<and>
           summary res =
             periodText period @ sumTotal @ String (int (length filtered)) @ sumOf @
             String (int (length (filter todo_completed filtered))) @ sumDone @
             toFixed1 e (length (filter todo_completed filtered)) (length filtered) @ sumClose \<and>
           urgentTasks res =
             map todo_title
               (take 5 (filter (\<lambda>t. \<not> todo_completed t \<and> todo_priority t = priorityHigh) filtered)) \<and>
           length (urgentTasks res) \<le> 5 \<and>
           length (insights res) = 2 \<and> length (recommendations res) = 2"
proof -
  have rows: "rows \<noteq> []" using assms(4,5) by auto
  have "fst (POST_analyze e (Some (Some period))) =
      Inr (Built (fallbackAnalysis (toFixed1 e) period filtered))"
    using assms(1-3) rows assms(5-8) unfolding assms(4)
    by (simp add: POST_analyze_def Let_def)
  moreover have "0 < length filtered" using assms(5) by simp
  ultimately show ?thesis by (simp add: fallbackAnalysis_def Let_def)
qed

lemma sample_filtered:
  "filter (inRange (newDateOfString sampleEnv) (getDateRange Today (rangeClock sampleEnv))) sampleRows
     = take 3 sampleRows"
  by code_simp


lemma sample_outside:
  "\<forall>t \<in> set (drop 3 sampleRows).
     \<not> inRange (newDateOfString (sampleEnv\<lparr>todos := Some (drop 3 sampleRows)\<rparr>))
         (getDateRange Today (rangeClock (sampleEnv\<lparr>todos := Some (drop 3 sampleRows)\<rparr>))) t"
  by code_simp

theorem POST_analyze_canned_witness:
  "user sampleEnv \<and> \<not> todosError sampleEnv \<and>
   POST_analyze (sampleEnv\<lparr>todos := None\<rparr>) (Some (Some Week)) = (Inr (Built cannedNoTodos), []) \<and>
   drop 3 sampleRows \<noteq> [] \<and>
   POST_analyze (sampleEnv\<lparr>todos := Some (drop 3 sampleRows)\<rparr>) (Some (Some Today)) =
     (Inr (Built (cannedNoneInPeriod Today)), [])"
proof -
  have u: "user (sampleEnv\<lparr>todos := x\<rparr>)" "\<not> todosError (sampleEnv\<lparr>todos := x\<rparr>)"
    "todos (sampleEnv\<lparr>todos := x\<rparr>) = x" "user sampleEnv" "\<not> todosError sampleEnv" for x
    by (simp_all add: sampleEnv_def)
  have n: "drop 3 sampleRows \<noteq> []" by (simp add: sampleRows_def)
  have a: "POST_analyze (sampleEnv\<lparr>todos := None\<rparr>) (Some (Some Week)) =
      (Inr (Built cannedNoTodos), [])"
    using POST_analyze_canned[OF u(1,2), of None Week, THEN conjunct1] u(3) by simp
  have b: "POST_analyze (sampleEnv\<lparr>todos := Some (drop 3 sampleRows)\<rparr>) (Some (Some Today)) =
      (Inr (Built (cannedNoneInPeriod Today)), [])"
    using POST_analyze_canned[OF u(1,2), of "Some (drop 3 sampleRows)" Today,
        THEN conjunct2, THEN conjunct1, THEN spec, of "drop 3 sampleRows"]
      u(3) n sample_outside
    by simp
  show ?thesis using a b n u(4,5) by simp
qed

theorem POST_analyze_fallback_witness:
  "map_option summary (builtResult (fst (POST_analyze sampleEnv (Some (Some Today))))) =
     Some (textToday @ sumTotal @ str ''3'' @ sumOf @ str ''0'' @ sumDone @ str ''0.0'' @ sumClose) \<and>
   map_option urgentTasks (builtResult (fst (POST_analyze sampleEnv (Some (Some Today))))) =
     Some [str ''Report'']"
proof -
  have e: "user sampleEnv" "\<not> todosError sampleEnv" "todos sampleEnv = Some sampleRows"
    "hasApiKey sampleEnv" "generateText sampleEnv p = Inr (str ''Sorry, I cannot answer.'')"
    "JSON_parse sampleEnv x = None" for p x
    by (simp_all add: sampleEnv_def)
  have f: "take 3 sampleRows =
      filter (inRange (newDateOfString sampleEnv) (getDateRange Today (rangeClock sampleEnv))) sampleRows"
    by (rule sample_filtered[symmetric])
  have n: "take 3 sampleRows \<noteq> []" by (simp add: sampleRows_def)
  have c: "filter todo_completed (take 3 sampleRows) = []"
    "filter (\<lambda>t. \<not> todo_completed t \<and> todo_priority t = priorityHigh) (take 3 sampleRows) =
       [sampleRow (str ''Report'') (str ''2024-06-10T09:00:00'') priorityHigh]"
    "length (take 3 sampleRows) = 3"
    by (simp_all add: sampleRows_def sampleRow_def priorityHigh_def str_def)
  have s: "String 3 = str ''3''" "String 0 = str ''0''" by (simp_all add: String_def str_def)
  have t: "toFixed1 sampleEnv 0 3 = str ''0.0''" by (simp add: sampleEnv_def)
  from POST_analyze_fallback[OF e(1,2,3) f n e(4) e(5) e(6)]
  obtain res where r: "fst (POST_analyze sampleEnv (Some (Some Today))) = Inr (Built res)"
    "summary res = periodText Today @ sumTotal @ String (int (length (take 3 sampleRows))) @ sumOf @
       String (int (length (filter todo_completed (take 3 sampleRows)))) @ sumDone @
       toFixed1 sampleEnv (length (filter todo_completed (take 3 sampleRows)))
         (length (take 3 sampleRows)) @ sumClose"
    "urgentTasks res = map todo_title (take 5
       (filter (\<lambda>t. \<not> todo_completed t \<and> todo_priority t = priorityHigh) (take 3 sampleRows)))"
    by blast
  have l: "length sampleRows = 4" by (simp add: sampleRows_def)
  show ?thesis
    unfolding r(1) using r(2,3) by (simp add: c s t l periodText_def sampleRow_def)
qed

text \<open>
  The claim as stated fails when more than five rows of the window are incomplete and of high
  priority: of six such rows the answer lists the titles of the first five only.
\<close>

theorem POST_analyze_fallback_lists_five:
  "filter (inRange (newDateOfString (sampleEnv\<lparr>todos := Some sampleUrgentRows\<rparr>))
       (getDateRange Today (rangeClock (sampleEnv\<lparr>todos := Some sampleUrgentRows\<rparr>))))
     sampleUrgentRows = sampleUrgentRows \<and>
   list_all incompleteHighPriority sampleUrgentRows \<and>
   map todo_title sampleUrgentRows =
     [str ''T1'', str ''T2'', str ''T3'', str ''T4'', str ''T5'', str ''T6''] \<and>
   JSON_parse (sampleEnv\<lparr>todos := Some sampleUrgentRows\<rparr>)
     (removeAll fence (removeAll fenceJson (trim (str ''Sorry, I cannot answer.'')))) = None \<and>
   map_option urgentTasks (builtResult (fst (POST_analyze
       (sampleEnv\<lparr>todos := Some sampleUrgentRows\<rparr>) (Some (Some Today))))) =
     Some [str ''T1'', str ''T2'', str ''T3'', str ''T4'', str ''T5''] \<and>
   map_option urgentTasks (builtResult (fst (POST_analyze
       (sampleEnv\<lparr>todos := Some sampleUrgentRows\<rparr>) (Some (Some Today))))) \<noteq>
     Some (map todo_title sampleUrgentRows)"
proof -
  have 1: "filter (inRange (newDateOfString (sampleEnv\<lparr>todos := Some sampleUrgentRows\<rparr>))
       (getDateRange Today (rangeClock (sampleEnv\<lparr>todos := Some sampleUrgentRows\<rparr>))))
     sampleUrgentRows = sampleUrgentRows"
    by code_simp
  have 2: "list_all incompleteHighPriority sampleUrgentRows"
    by code_simp
  have 3: "map todo_title sampleUrgentRows =
     [str ''T1'', str ''T2'', str ''T3'', str ''T4'', str ''T5'', str ''T6'']"
    by code_simp
  have 4: "JSON_parse (sampleEnv\<lparr>todos := Some sampleUrgentRows\<rparr>) x = None" for x
    by (simp add: sampleEnv_def)
  have 5: "map_option urgentTasks (builtResult (fst (POST_analyze
       (sampleEnv\<lparr>todos := Some sampleUrgentRows\<rparr>) (Some (Some Today))))) =
     Some [str ''T1'', str ''T2'', str ''T3'', str ''T4'', str ''T5'']"
    by code_simp
  have 6: "map_option urgentTasks (builtResult (fst (POST_analyze
       (sampleEnv\<lparr>todos := Some sampleUrgentRows\<rparr>) (Some (Some Today))))) \<noteq>
     Some (map todo_title sampleUrgentRows)"
    unfolding 5 3 by simp
  show ?thesis using 1 2 3 4 5 6 by blast
qed

end
